theory Spec2Isabelle
  imports Complex_Main
begin

section \<open>JavaScript values\<close>

text \<open>
  The server is JavaScript: request bodies are parsed JSON, and the rows and errors the
  upstream clients return are plain objects. All of them are values of one dynamic type.
  Numbers are IEEE doubles: a finite one is held by its exact value, a rational,
  \<open>JInfinity True\<close> and \<open>JInfinity False\<close> are plus and minus infinity and
  \<open>JNaN\<close> is the not-a-number value. Negative zero is not kept apart from zero:
  the handlers never divide, and truthiness, \<open>===\<close>, the comparisons and the
  conversion to a string do not tell the two apart. Strings are lists of 8-bit characters.
  An object is the list of its own properties, read at the first entry of a key.
\<close>

datatype jsval =
    JUndefined
  | JNull
  | JBool bool
  | JNum rat
  | JInfinity bool
  | JNaN
  | JStr string
  | JArr "jsval list"
  | JObj "(string \<times> jsval) list"

text \<open>A number on its own, as the conversions and the arithmetic of the engine see it.\<close>

datatype number = Finite rat | Infinite bool | NotANumber

text \<open>
  What the JavaScript engine and the process environment supply and the repository does
  not define: the conversions between strings and numbers, the addition and the
  multiplication of doubles (which round), \<open>parseFloat\<close> and \<open>parseInt\<close>
  on strings, the URL parser, the date parser, the clock, the calendar of the server's
  time zone and the FRONTEND_URL configuration variable (a string, or undefined). They
  are parameters of the model. \<open>days_before R n t\<close> is the time value that
  \<open>d.setDate(d.getDate() - n)\<close> leaves in a Date \<open>d\<close> of time value \<open>t\<close>:
  the same local time of day \<open>n\<close> calendar days earlier.
\<close>

record runtime =
  number_of_string :: "string \<Rightarrow> number"
  string_of_number :: "rat \<Rightarrow> string"
  number_add :: "number \<Rightarrow> number \<Rightarrow> number"
  number_mul :: "number \<Rightarrow> number \<Rightarrow> number"
  parseFloat_string :: "string \<Rightarrow> number"
  parseInt_string :: "string \<Rightarrow> number"
  url_protocol :: "string \<Rightarrow> string option"
  date_parse :: "string \<Rightarrow> int option"
  iso_string :: "int \<Rightarrow> string"
  now :: int
  days_before :: "nat \<Rightarrow> int \<Rightarrow> int"
  FRONTEND_URL :: jsval

text \<open>\<open>!v\<close> is \<open>\<not> truthy v\<close>.\<close>

fun truthy :: "jsval \<Rightarrow> bool" where
  "truthy JUndefined = False"
| "truthy JNull = False"
| "truthy (JBool b) = b"
| "truthy (JNum n) = (n \<noteq> 0)"
| "truthy (JInfinity s) = True"
| "truthy JNaN = False"
| "truthy (JStr s) = (s \<noteq> [])"
| "truthy (JArr xs) = True"
| "truthy (JObj fs) = True"

fun nullish :: "jsval \<Rightarrow> bool" where
  "nullish JUndefined = True"
| "nullish JNull = True"
| "nullish v = False"

text \<open>\<open>a || b\<close>\<close>

definition js_or :: "jsval \<Rightarrow> jsval \<Rightarrow> jsval" where
  "js_or a b = (if truthy a then a else b)"

text \<open>
  \<open>a === b\<close>. Two objects or arrays are equal only when they are the same
  reference; the operands the handlers compare come from different sources (a request,
  an upstream reply, a literal), so they are never the same reference.
\<close>

fun strict_eq :: "jsval \<Rightarrow> jsval \<Rightarrow> bool" where
  "strict_eq JUndefined JUndefined = True"
| "strict_eq JNull JNull = True"
| "strict_eq (JBool a) (JBool b) = (a = b)"
| "strict_eq (JNum a) (JNum b) = (a = b)"
| "strict_eq (JInfinity a) (JInfinity b) = (a = b)"
| "strict_eq (JStr a) (JStr b) = (a = b)"
| "strict_eq a b = False"

text \<open>
  \<open>v.k\<close> for a value that is neither null nor undefined (where the base can be,
  the handlers below test it first and take the branch of the thrown TypeError). Only
  \<open>length\<close> is read from arrays and strings.
\<close>

definition field_of :: "(string \<times> jsval) list \<Rightarrow> string \<Rightarrow> jsval" where
  "field_of fs k = (case map_of fs k of None \<Rightarrow> JUndefined | Some v \<Rightarrow> v)"

fun js_get :: "jsval \<Rightarrow> string \<Rightarrow> jsval" where
  "js_get (JObj fs) k = field_of fs k"
| "js_get (JArr xs) k = (if k = ''length'' then JNum (of_nat (length xs)) else JUndefined)"
| "js_get (JStr s) k = (if k = ''length'' then JNum (of_nat (length s)) else JUndefined)"
| "js_get v k = JUndefined"

text \<open>\<open>v?.k\<close>\<close>

definition opt_prop :: "jsval \<Rightarrow> string \<Rightarrow> jsval" where
  "opt_prop v k = (if nullish v then JUndefined else js_get v k)"

text \<open>\<open>v[0]\<close> for a value that is neither null nor undefined.\<close>

fun index0 :: "jsval \<Rightarrow> jsval" where
  "index0 (JArr []) = JUndefined"
| "index0 (JArr (x # xs)) = x"
| "index0 (JObj fs) = field_of fs ''0''"
| "index0 (JStr []) = JUndefined"
| "index0 (JStr (c # cs)) = JStr [c]"
| "index0 v = JUndefined"

fun join_comma :: "string list \<Rightarrow> string" where
  "join_comma [] = []"
| "join_comma [s] = s"
| "join_comma (s # t # ts) = s @ '','' @ join_comma (t # ts)"

text \<open>
  ToString. An array is the join of its elements, a plain object is
  \<open>[object Object]\<close>. The conversion throws a TypeError for the values that
  \<open>unconvertible\<close> below singles out; the handlers test for them first.
\<close>

fun to_string :: "runtime \<Rightarrow> jsval \<Rightarrow> string" where
  "to_string R JUndefined = ''undefined''"
| "to_string R JNull = ''null''"
| "to_string R (JBool b) = (if b then ''true'' else ''false'')"
| "to_string R (JNum n) = string_of_number R n"
| "to_string R (JInfinity s) = (if s then ''Infinity'' else ''-Infinity'')"
| "to_string R JNaN = ''NaN''"
| "to_string R (JStr s) = s"
| "to_string R (JArr xs) =
     join_comma (map (\<lambda>x. if nullish x then [] else to_string R x) xs)"
| "to_string R (JObj fs) = ''[object Object]''"

text \<open>
  The values that neither ToPrimitive nor ToString can convert: both call the
  \<open>toString\<close> and \<open>valueOf\<close> methods of an object and throw a TypeError when
  neither gives a primitive. The objects and arrays here are parsed JSON, so a property
  of their own is never a function. An object with a \<open>toString\<close> entry of its own
  hides the inherited method and cannot be converted (the inherited \<open>valueOf\<close>
  returns the object itself, an own one cannot be called). An array is joined, which
  converts every element that is neither null nor undefined.
\<close>

fun unconvertible :: "jsval \<Rightarrow> bool" where
  "unconvertible (JObj fs) = (map_of fs ''toString'' \<noteq> None)"
| "unconvertible (JArr xs) = (\<exists>x\<in>set xs. \<not> nullish x \<and> unconvertible x)"
| "unconvertible v = False"

text \<open>ToPrimitive; \<open>None\<close> is the thrown TypeError.\<close>

definition to_primitive :: "runtime \<Rightarrow> jsval \<Rightarrow> jsval option" where
  "to_primitive R v =
     (if unconvertible v then None
      else (case v of
              JArr xs \<Rightarrow> Some (JStr (to_string R v))
            | JObj fs \<Rightarrow> Some (JStr (to_string R v))
            | _ \<Rightarrow> Some v))"

text \<open>ToNumber of a primitive.\<close>

fun prim_to_number :: "runtime \<Rightarrow> jsval \<Rightarrow> number" where
  "prim_to_number R JUndefined = NotANumber"
| "prim_to_number R JNull = Finite 0"
| "prim_to_number R (JBool b) = Finite (if b then 1 else 0)"
| "prim_to_number R (JNum n) = Finite n"
| "prim_to_number R (JInfinity s) = Infinite s"
| "prim_to_number R JNaN = NotANumber"
| "prim_to_number R (JStr s) = number_of_string R s"
| "prim_to_number R v = NotANumber"

fun of_number :: "number \<Rightarrow> jsval" where
  "of_number (Finite n) = JNum n"
| "of_number (Infinite s) = JInfinity s"
| "of_number NotANumber = JNaN"

fun is_string :: "jsval \<Rightarrow> bool" where
  "is_string (JStr s) = True"
| "is_string v = False"

text \<open>The order of two strings: by code units, a proper prefix first.\<close>

fun string_less :: "string \<Rightarrow> string \<Rightarrow> bool" where
  "string_less [] [] = False"
| "string_less [] (y # ys) = True"
| "string_less (x # xs) [] = False"
| "string_less (x # xs) (y # ys) =
     (if (of_char x :: nat) < of_char y then True
      else if (of_char y :: nat) < of_char x then False
      else string_less xs ys)"

text \<open>The order of two numbers: exact, and false as soon as one of them is NaN.\<close>

fun number_less :: "number \<Rightarrow> number \<Rightarrow> bool" where
  "number_less (Finite x) (Finite y) = (x < y)"
| "number_less (Finite x) (Infinite t) = t"
| "number_less (Infinite s) (Finite y) = (\<not> s)"
| "number_less (Infinite s) (Infinite t) = (\<not> s \<and> t)"
| "number_less x y = False"

text \<open>
  The operators \<open>a < b\<close>, \<open>a > b\<close>, \<open>a + b\<close> and \<open>a * b\<close> convert
  their operands with ToPrimitive and throw its TypeError. A handler tests the operands
  with \<open>unconvertible\<close> before it uses an operator and takes the branch of its
  \<open>catch\<close> for them; the value an operator has below for such operands (false,
  NaN) is never used.
\<close>

text \<open>\<open>a < b\<close> and \<open>a > b\<close>: two strings by code units, anything else as numbers.\<close>

definition js_lt :: "runtime \<Rightarrow> jsval \<Rightarrow> jsval \<Rightarrow> bool" where
  "js_lt R a b =
     (case (to_primitive R a, to_primitive R b) of
        (Some pa, Some pb) \<Rightarrow>
          if is_string pa \<and> is_string pb then string_less (to_string R pa) (to_string R pb)
          else number_less (prim_to_number R pa) (prim_to_number R pb)
      | _ \<Rightarrow> False)"

definition js_gt :: "runtime \<Rightarrow> jsval \<Rightarrow> jsval \<Rightarrow> bool" where
  "js_gt R a b = js_lt R b a"

text \<open>
  \<open>a + b\<close>: concatenation as soon as one operand is a string, the engine's addition
  of doubles otherwise.
\<close>

definition js_add :: "runtime \<Rightarrow> jsval \<Rightarrow> jsval \<Rightarrow> jsval" where
  "js_add R a b =
     (case (to_primitive R a, to_primitive R b) of
        (Some pa, Some pb) \<Rightarrow>
          if is_string pa \<or> is_string pb then JStr (to_string R pa @ to_string R pb)
          else of_number (number_add R (prim_to_number R pa) (prim_to_number R pb))
      | _ \<Rightarrow> JNaN)"

text \<open>ToNumber, and \<open>a * b\<close>: the engine's multiplication of doubles.\<close>

definition to_number :: "runtime \<Rightarrow> jsval \<Rightarrow> number" where
  "to_number R v = (case to_primitive R v of None \<Rightarrow> NotANumber | Some p \<Rightarrow> prim_to_number R p)"

definition js_mul :: "runtime \<Rightarrow> jsval \<Rightarrow> jsval \<Rightarrow> jsval" where
  "js_mul R a b = of_number (number_mul R (to_number R a) (to_number R b))"

text \<open>\<open>parseFloat(v)\<close> and \<open>parseInt(v)\<close>: of the string of \<open>v\<close>.\<close>

definition parseFloat :: "runtime \<Rightarrow> jsval \<Rightarrow> jsval" where
  "parseFloat R v = of_number (parseFloat_string R (to_string R v))"

definition parseInt :: "runtime \<Rightarrow> jsval \<Rightarrow> jsval" where
  "parseInt R v = of_number (parseInt_string R (to_string R v))"

text \<open>\<open>new Date().toISOString()\<close>\<close>

definition now_iso :: "runtime \<Rightarrow> jsval" where
  "now_iso R = JStr (iso_string R (now R))"

text \<open>A value between double quotes, as the template literals of the messages put it.\<close>

definition quoted :: "string \<Rightarrow> string" where
  "quoted s = CHR 0x22 # s @ [CHR 0x22]"

section \<open>Requests, upstream calls and responses\<close>

text \<open>
  What a handler reads of a request: the Authorization header (absent or a string), the
  parsed body (the body parsers leave an object when there is none) and the \<open>:id\<close>
  segment of the path.
\<close>

record request =
  authorization :: "string option"
  body :: jsval
  param_id :: string

text \<open>
  Every \<open>await\<close> of the source is a call to the hosted platform: to its identity
  provider or to its record store. A call is recorded as data: the operation, the table,
  the selected columns (the line breaks and indentation of the source's multi-line column
  lists aside), the \<open>eq\<close> filters in the order written, the ordering (column,
  ascending) and whether \<open>single()\<close> ends the query. The insert of a new
  product goes through a client that carries the caller's token; every other call goes
  through the service client.
\<close>

datatype client = ServiceClient | CallerClient jsval

datatype call =
    GetUser jsval
  | SignUp jsval jsval
  | SignInWithPassword jsval jsval
  | SignInWithOtp jsval string
  | SignInWithOAuth string string
  | SignOut
  | UpdateUser jsval
  | Select string string "(string \<times> jsval) list" "(string \<times> bool) option" bool
  | Insert client string jsval
  | Update string jsval "(string \<times> jsval) list"
  | Upsert string jsval string
  | Delete string "(string \<times> jsval) list"

text \<open>The calls that ask the record store to change rows.\<close>

fun is_write :: "call \<Rightarrow> bool" where
  "is_write (Insert c t row) = True"
| "is_write (Update t row fs) = True"
| "is_write (Upsert t row k) = True"
| "is_write (Delete t fs) = True"
| "is_write c = False"

text \<open>
  The platform's answer to a call: the promise rejects with an exception of the given
  message, or resolves to \<open>{data, error}\<close> where \<open>error\<close> is null or an
  error object with the given message. The platform is a parameter of every handler: a
  function from the call issued to its answer. No handler issues the same call twice, so
  such a function fixes every answer of one run.
\<close>

datatype reply = Threw string | Returned jsval "string option"

type_synonym platform = "call \<Rightarrow> reply"

text \<open>
  What the handler did: the response it sent (or that its promise rejected outside any
  \<open>try\<close>, so that nothing was sent) and the calls it issued, in order.
\<close>

datatype response = Response nat jsval | Unhandled string

record outcome =
  response :: response
  calls :: "call list"

definition respond :: "nat \<Rightarrow> jsval \<Rightarrow> call list \<Rightarrow> outcome" where
  "respond code b cs = \<lparr>response = Response code b, calls = cs\<rparr>"

text \<open>The status and the \<open>details\<close> field of the response, and the writes among the calls.\<close>

definition status_of :: "outcome \<Rightarrow> nat option" where
  "status_of out = (case response out of Response code b \<Rightarrow> Some code | Unhandled m \<Rightarrow> None)"

definition payload_of :: "outcome \<Rightarrow> jsval" where
  "payload_of out = (case response out of Response code b \<Rightarrow> b | Unhandled m \<Rightarrow> JUndefined)"

definition details_of :: "outcome \<Rightarrow> jsval" where
  "details_of out = js_get (payload_of out) ''details''"

definition writes :: "outcome \<Rightarrow> call list" where
  "writes out = filter is_write (calls out)"

text \<open>
  The record store after a handler has run, whatever a write does to it: \<open>effect\<close>
  is the store's own reaction to a write, and a call that is not a write leaves the store
  as it is.
\<close>

definition store_after :: "(call \<Rightarrow> 's \<Rightarrow> 's) \<Rightarrow> outcome \<Rightarrow> 's \<Rightarrow> 's" where
  "store_after effect out s = foldl (\<lambda>s c. if is_write c then effect c s else s) s (calls out)"

definition error_body :: "string \<Rightarrow> jsval" where
  "error_body msg = JObj [(''error'', JStr msg)]"

definition error_details :: "string \<Rightarrow> jsval \<Rightarrow> jsval" where
  "error_details msg d = JObj [(''error'', JStr msg), (''details'', d)]"

text \<open>\<open>error?.message\<close>\<close>

fun message_of :: "string option \<Rightarrow> jsval" where
  "message_of None = JUndefined"
| "message_of (Some m) = JStr m"

text \<open>
  The message of the TypeError the engine throws when a property of null or undefined is
  read; its wording is the engine's and is not modelled.
\<close>

definition type_error :: string where
  "type_error = ''TypeError''"

text \<open>The \<open>catch\<close> blocks.\<close>

definition internal_server_error :: "string \<Rightarrow> call list \<Rightarrow> outcome" where
  "internal_server_error m cs = respond 500 (error_details ''Internal server error'' (JStr m)) cs"

definition internal_error :: "string \<Rightarrow> call list \<Rightarrow> outcome" where
  "internal_error m cs = respond 500 (error_details ''Internal error'' (JStr m)) cs"

section \<open>The bearer token and the caller\<close>

text \<open>\<open>s.split(' ')\<close>\<close>

fun split_space :: "string \<Rightarrow> string list" where
  "split_space [] = [[]]"
| "split_space (c # cs) =
     (if c = CHR '' '' then [] # split_space cs
      else (case split_space cs of
              [] \<Rightarrow> [[c]]
            | w # ws \<Rightarrow> (c # w) # ws))"

text \<open>\<open>req.headers.authorization?.split(' ')[1]\<close>\<close>

definition bearer_token :: "request \<Rightarrow> jsval" where
  "bearer_token req =
     (case authorization req of
        None \<Rightarrow> JUndefined
      | Some h \<Rightarrow> (case split_space h of
                     a # t # ts \<Rightarrow> JStr t
                   | _ \<Rightarrow> JUndefined))"

text \<open>
  The opening lines every protected handler repeats: take the token, stop when there is
  none, ask the identity provider for its user, stop when the provider reports an error
  or no user. The handlers differ in what they answer in each case, so the guard returns
  the case and each handler below writes its own answers.
\<close>

datatype guard =
    NoToken
  | GuardThrew jsval string
  | InvalidToken jsval "string option"
  | Caller jsval jsval

definition auth_guard :: "platform \<Rightarrow> request \<Rightarrow> guard" where
  "auth_guard W req =
     (let token = bearer_token req in
      if \<not> truthy token then NoToken
      else (case W (GetUser token) of
              Threw m \<Rightarrow> GuardThrew token m
            | Returned data authError \<Rightarrow>
                if nullish data then GuardThrew token type_error
                else (let user = js_get data ''user'' in
                      if authError \<noteq> None \<or> \<not> truthy user then InvalidToken token authError
                      else Caller token user)))"

section \<open>Cart handlers\<close>

text \<open>GET /api/cart\<close>

definition cart_columns :: string where
  "cart_columns = ''*, products (id, title, description, price, image_url, category, stock_quantity, is_active)''"

definition get_cart :: "runtime \<Rightarrow> platform \<Rightarrow> request \<Rightarrow> outcome" where
  "get_cart R W req =
     (case auth_guard W req of
        NoToken \<Rightarrow> respond 401 (error_body ''No token provided'') []
      | GuardThrew token m \<Rightarrow> internal_error m [GetUser token]
      | InvalidToken token authError \<Rightarrow>
          respond 401 (error_details ''Invalid or expired token'' (message_of authError))
            [GetUser token]
      | Caller token user \<Rightarrow>
          (let list = Select ''cart_items'' cart_columns [(''user_id'', js_get user ''id'')]
                        (Some (''added_at'', False)) False
           in case W list of
                Threw m \<Rightarrow> internal_error m [GetUser token, list]
              | Returned data error \<Rightarrow>
                  (case error of
                     Some m \<Rightarrow>
                       respond 400 (error_details ''Failed to fetch cart items'' (JStr m))
                         [GetUser token, list]
                   | None \<Rightarrow> respond 200 (js_or data (JArr [])) [GetUser token, list])))"

text \<open>
  POST /api/cart. \<open>quantity\<close> takes its default only when the body has none. The
  product is read first; then the caller's row for the product; then either that row is
  updated or a new one inserted. The two branches of that last step are written first:
  \<open>cs\<close> are the calls issued before the branch is entered. The comparison with
  the stock, the sum of the two quantities and the template of the message throw for an
  operand that cannot be converted; the \<open>catch\<close> answers 500.
\<close>

definition requested_quantity :: "jsval \<Rightarrow> jsval" where
  "requested_quantity b =
     (if strict_eq (js_get b ''quantity'') JUndefined then JNum 1 else js_get b ''quantity'')"

definition added_to_cart :: "runtime \<Rightarrow> jsval \<Rightarrow> jsval \<Rightarrow> jsval" where
  "added_to_cart R product result =
     JObj [(''message'', JStr (''Added '' @ quoted (to_string R (js_get product ''title'')) @
                              '' to cart'')),
           (''cartItem'', result)]"

text \<open>Update existing cart item\<close>

definition update_existing_cart_item ::
  "runtime \<Rightarrow> platform \<Rightarrow> call list \<Rightarrow> jsval \<Rightarrow> jsval \<Rightarrow> jsval \<Rightarrow> outcome" where
  "update_existing_cart_item R W cs product existingItem quantity =
     (if unconvertible (js_get existingItem ''quantity'') \<or> unconvertible quantity then
        internal_server_error type_error cs
      else
      let newQuantity = js_add R (js_get existingItem ''quantity'') quantity in
      if js_gt R newQuantity (js_get product ''stock_quantity'') then
        respond 400
          (JObj [(''error'', JStr ''Cannot add more items than available stock''),
                 (''currentInCart'', js_get existingItem ''quantity''),
                 (''available'', js_get product ''stock_quantity''),
                 (''requested'', quantity)])
          cs
      else
      (let upd = Update ''cart_items''
                   (JObj [(''quantity'', newQuantity), (''added_at'', now_iso R)])
                   [(''id'', js_get existingItem ''id'')]
       in case W upd of
            Threw m \<Rightarrow> internal_server_error m (cs @ [upd])
          | Returned data error \<Rightarrow>
              (case error of
                 Some m \<Rightarrow>
                   respond 400 (error_details ''Failed to update cart item'' (JStr m)) (cs @ [upd])
               | None \<Rightarrow>
                   if nullish data \<or> unconvertible (js_get product ''title'') then
                     internal_server_error type_error (cs @ [upd])
                   else respond 201 (added_to_cart R product (index0 data)) (cs @ [upd]))))"

text \<open>Create new cart item\<close>

definition create_new_cart_item ::
  "runtime \<Rightarrow> platform \<Rightarrow> call list \<Rightarrow> jsval \<Rightarrow> jsval \<Rightarrow> jsval \<Rightarrow> jsval \<Rightarrow> outcome" where
  "create_new_cart_item R W cs user product product_id quantity =
     (let ins = Insert ServiceClient ''cart_items''
                  (JObj [(''user_id'', js_get user ''id''),
                         (''product_id'', product_id),
                         (''quantity'', quantity)])
      in case W ins of
           Threw m \<Rightarrow> internal_server_error m (cs @ [ins])
         | Returned data error \<Rightarrow>
             (case error of
                Some m \<Rightarrow>
                  respond 400 (error_details ''Failed to add item to cart'' (JStr m)) (cs @ [ins])
              | None \<Rightarrow>
                  if nullish data \<or> unconvertible (js_get product ''title'') then
                    internal_server_error type_error (cs @ [ins])
                  else respond 201 (added_to_cart R product (index0 data)) (cs @ [ins])))"

definition post_cart :: "runtime \<Rightarrow> platform \<Rightarrow> request \<Rightarrow> outcome" where
  "post_cart R W req =
     (case auth_guard W req of
        NoToken \<Rightarrow> respond 401 (error_body ''No token provided'') []
      | GuardThrew token m \<Rightarrow> internal_server_error m [GetUser token]
      | InvalidToken token authError \<Rightarrow>
          respond 401 (error_details ''Invalid or expired token'' (message_of authError))
            [GetUser token]
      | Caller token user \<Rightarrow>
          (let product_id = js_get (body req) ''product_id'';
               quantity = requested_quantity (body req)
           in
           if \<not> truthy product_id then
             respond 400 (error_body ''Product ID is required'') [GetUser token]
           else
           (let load = Select ''products'' ''id, title, stock_quantity, is_active''
                         [(''id'', product_id)] None True
            in case W load of
                 Threw m \<Rightarrow> internal_server_error m [GetUser token, load]
               | Returned product productError \<Rightarrow>
                   if productError \<noteq> None \<or> \<not> truthy product then
                     respond 404 (error_details ''Product not found'' (message_of productError))
                       [GetUser token, load]
                   else if \<not> truthy (js_get product ''is_active'') then
                     respond 400 (error_body ''Product is not active'') [GetUser token, load]
                   else if unconvertible (js_get product ''stock_quantity'') \<or>
                           unconvertible quantity then
                     internal_server_error type_error [GetUser token, load]
                   else if js_lt R (js_get product ''stock_quantity'') quantity then
                     respond 400
                       (JObj [(''error'', JStr ''Insufficient stock''),
                              (''available'', js_get product ''stock_quantity''),
                              (''requested'', quantity)])
                       [GetUser token, load]
                   else
                   (let existing = Select ''cart_items'' ''*''
                                     [(''user_id'', js_get user ''id''), (''product_id'', product_id)]
                                     None True;
                        cs = [GetUser token, load, existing]
                    in case W existing of
                         Threw m \<Rightarrow> internal_server_error m cs
                       | Returned existingItem existingError \<Rightarrow>
                           if truthy existingItem \<and> existingError = None then
                             update_existing_cart_item R W cs product existingItem quantity
                           else
                             create_new_cart_item R W cs user product product_id quantity))))"

text \<open>PUT /api/cart/:id\<close>

definition put_cart :: "runtime \<Rightarrow> platform \<Rightarrow> request \<Rightarrow> outcome" where
  "put_cart R W req =
     (case auth_guard W req of
        NoToken \<Rightarrow> respond 401 (error_body ''No token provided'') []
      | GuardThrew token m \<Rightarrow> internal_server_error m [GetUser token]
      | InvalidToken token authError \<Rightarrow>
          respond 401 (error_details ''Invalid or expired token'' (message_of authError))
            [GetUser token]
      | Caller token user \<Rightarrow>
          (let cartItemId = JStr (param_id req);
               quantity = js_get (body req) ''quantity''
           in
           if truthy quantity \<and> unconvertible quantity then
             internal_server_error type_error [GetUser token]
           else if \<not> truthy quantity \<or> js_lt R quantity (JNum 1) then
             respond 400 (error_body ''Quantity must be at least 1'') [GetUser token]
           else
           (let lookup = Select ''cart_items'' ''*, products (stock_quantity, title)''
                           [(''id'', cartItemId), (''user_id'', js_get user ''id'')] None True
            in case W lookup of
                 Threw m \<Rightarrow> internal_server_error m [GetUser token, lookup]
               | Returned cartItem cartError \<Rightarrow>
                   if cartError \<noteq> None \<or> \<not> truthy cartItem then
                     respond 404 (error_details ''Cart item not found'' (message_of cartError))
                       [GetUser token, lookup]
                   else if nullish (js_get cartItem ''products'') \<or>
                           unconvertible (js_get (js_get cartItem ''products'') ''stock_quantity'') then
                     internal_server_error type_error [GetUser token, lookup]
                   else if js_gt R quantity
                             (js_get (js_get cartItem ''products'') ''stock_quantity'') then
                     respond 400
                       (JObj [(''error'', JStr ''Quantity exceeds available stock''),
                              (''available'', js_get (js_get cartItem ''products'') ''stock_quantity''),
                              (''requested'', quantity)])
                       [GetUser token, lookup]
                   else
                   (let upd = Update ''cart_items'' (JObj [(''quantity'', quantity)])
                                [(''id'', cartItemId)];
                        cs = [GetUser token, lookup, upd]
                    in case W upd of
                         Threw m \<Rightarrow> internal_server_error m cs
                       | Returned data error \<Rightarrow>
                           (case error of
                              Some m \<Rightarrow>
                                respond 400 (error_details ''Failed to update cart item'' (JStr m)) cs
                            | None \<Rightarrow>
                                if nullish data \<or>
                                   unconvertible (js_get (js_get cartItem ''products'') ''title'')
                                then internal_server_error type_error cs
                                else respond 200
                                  (JObj [(''message'', JStr (''Updated quantity for '' @
                                            quoted (to_string R
                                              (js_get (js_get cartItem ''products'') ''title'')))),
                                         (''cartItem'', index0 data)]) cs)))))"

text \<open>
  DELETE /api/cart/:id. The confirmation message is built after the delete has been
  answered, from the row read before it.
\<close>

definition delete_cart_item :: "runtime \<Rightarrow> platform \<Rightarrow> request \<Rightarrow> outcome" where
  "delete_cart_item R W req =
     (case auth_guard W req of
        NoToken \<Rightarrow> respond 401 (error_body ''No token provided'') []
      | GuardThrew token m \<Rightarrow> internal_server_error m [GetUser token]
      | InvalidToken token authError \<Rightarrow>
          respond 401 (error_details ''Invalid or expired token'' (message_of authError))
            [GetUser token]
      | Caller token user \<Rightarrow>
          (let cartItemId = JStr (param_id req);
               lookup = Select ''cart_items'' ''*, products(title)''
                          [(''id'', cartItemId), (''user_id'', js_get user ''id'')] None True
           in case W lookup of
                Threw m \<Rightarrow> internal_server_error m [GetUser token, lookup]
              | Returned cartItem cartError \<Rightarrow>
                  if cartError \<noteq> None \<or> \<not> truthy cartItem then
                    respond 404 (error_details ''Cart item not found'' (message_of cartError))
                      [GetUser token, lookup]
                  else
                  (let del = Delete ''cart_items'' [(''id'', cartItemId)];
                       cs = [GetUser token, lookup, del]
                   in case W del of
                        Threw m \<Rightarrow> internal_server_error m cs
                      | Returned data error \<Rightarrow>
                          (case error of
                             Some m \<Rightarrow>
                               respond 400 (error_details ''Failed to remove cart item'' (JStr m)) cs
                           | None \<Rightarrow>
                               if nullish (js_get cartItem ''products'') \<or>
                                  unconvertible (js_get (js_get cartItem ''products'') ''title'')
                               then internal_server_error type_error cs
                               else respond 200
                                 (JObj [(''message'', JStr (''Removed '' @
                                           quoted (to_string R
                                             (js_get (js_get cartItem ''products'') ''title'')) @
                                           '' from cart''))]) cs))))"

text \<open>DELETE /api/cart\<close>

definition delete_cart :: "runtime \<Rightarrow> platform \<Rightarrow> request \<Rightarrow> outcome" where
  "delete_cart R W req =
     (case auth_guard W req of
        NoToken \<Rightarrow> respond 401 (error_body ''No token provided'') []
      | GuardThrew token m \<Rightarrow> internal_server_error m [GetUser token]
      | InvalidToken token authError \<Rightarrow>
          respond 401 (error_details ''Invalid or expired token'' (message_of authError))
            [GetUser token]
      | Caller token user \<Rightarrow>
          (let del = Delete ''cart_items'' [(''user_id'', js_get user ''id'')];
               cs = [GetUser token, del]
           in case W del of
                Threw m \<Rightarrow> internal_server_error m cs
              | Returned data error \<Rightarrow>
                  (case error of
                     Some m \<Rightarrow> respond 400 (error_details ''Failed to clear cart'' (JStr m)) cs
                   | None \<Rightarrow>
                       respond 200 (JObj [(''message'', JStr ''Cart cleared successfully'')]) cs)))"

section \<open>Product handlers\<close>

text \<open>GET /api/posts\<close>

definition get_posts :: "runtime \<Rightarrow> platform \<Rightarrow> request \<Rightarrow> outcome" where
  "get_posts R W req =
     (let list = Select ''products'' ''*'' [] (Some (''created_at'', False)) False
      in case W list of
           Threw m \<Rightarrow> internal_error m [list]
         | Returned data error \<Rightarrow>
             (case error of
                Some m \<Rightarrow> respond 400 (error_details ''Failed to fetch products'' (JStr m)) [list]
              | None \<Rightarrow> respond 200 data [list]))"

text \<open>
  POST /api/posts. The guard of this handler stands before its \<open>try\<close>: when the
  identity provider's promise rejects there, nothing catches it and no response is sent.
  The client for the insert is created from the configured public key, assumed present
  (the client library refuses an absent key). The new record is built before the
  \<open>try\<close> as well, with the price taken as one that \<open>parseFloat\<close> can convert.
\<close>

definition newProduct :: "runtime \<Rightarrow> jsval \<Rightarrow> jsval \<Rightarrow> jsval" where
  "newProduct R user b =
     JObj [(''seller_id'', js_get user ''id''),
           (''title'', js_get b ''title''),
           (''description'', js_get b ''description''),
           (''price'', parseFloat R (js_get b ''price'')),
           (''image_url'', js_or (js_get b ''image_url'') JNull),
           (''category'', js_or (js_get b ''category'') JNull),
           (''stock_quantity'', js_or (js_get b ''stock_quantity'') (JNum 0)),
           (''is_active'', if \<not> strict_eq (js_get b ''is_active'') JUndefined
                           then js_get b ''is_active'' else JBool True)]"

definition post_posts :: "runtime \<Rightarrow> platform \<Rightarrow> request \<Rightarrow> outcome" where
  "post_posts R W req =
     (case auth_guard W req of
        NoToken \<Rightarrow> respond 401 (error_body ''No token provided'') []
      | GuardThrew token m \<Rightarrow> \<lparr>response = Unhandled m, calls = [GetUser token]\<rparr>
      | InvalidToken token authError \<Rightarrow>
          respond 401 (error_details ''Invalid or expired token'' (message_of authError))
            [GetUser token]
      | Caller token user \<Rightarrow>
          if \<not> truthy (js_get (body req) ''title'') \<or> \<not> truthy (js_get (body req) ''description'')
             \<or> strict_eq (js_get (body req) ''price'') JUndefined then
            respond 400 (error_body ''Missing required fields: title, description, price'')
              [GetUser token]
          else
          (let ins = Insert (CallerClient token) ''products'' (newProduct R user (body req));
               cs = [GetUser token, ins]
           in case W ins of
                Threw m \<Rightarrow> internal_server_error m cs
              | Returned data error \<Rightarrow>
                  (case error of
                     Some m \<Rightarrow> respond 400 (error_details ''Failed to create product'' (JStr m)) cs
                   | None \<Rightarrow>
                       if \<not> truthy data \<or> strict_eq (js_get data ''length'') (JNum 0) then
                         respond 400 (error_body ''Product creation failed - no data returned'') cs
                       else respond 201
                         (JObj [(''message'', JStr ''Product created successfully''),
                                (''product'', index0 data)]) cs)))"

text \<open>\<open>user.user_metadata?.full_name || user.email\<close>\<close>

definition display_name :: "jsval \<Rightarrow> jsval" where
  "display_name user =
     js_or (opt_prop (js_get user ''user_metadata'') ''full_name'') (js_get user ''email'')"

definition seller_of :: "jsval \<Rightarrow> jsval" where
  "seller_of user =
     JObj [(''id'', js_get user ''id''), (''email'', js_get user ''email''),
           (''name'', display_name user)]"

text \<open>GET /api/my-products\<close>

definition get_my_products :: "runtime \<Rightarrow> platform \<Rightarrow> request \<Rightarrow> outcome" where
  "get_my_products R W req =
     (case auth_guard W req of
        NoToken \<Rightarrow> respond 401 (error_body ''No token provided'') []
      | GuardThrew token m \<Rightarrow> internal_error m [GetUser token]
      | InvalidToken token authError \<Rightarrow>
          respond 401 (error_details ''Invalid or expired token'' (message_of authError))
            [GetUser token]
      | Caller token user \<Rightarrow>
          (let list = Select ''products'' ''*'' [(''seller_id'', js_get user ''id'')]
                        (Some (''created_at'', False)) False;
               cs = [GetUser token, list]
           in case W list of
                Threw m \<Rightarrow> internal_error m cs
              | Returned data error \<Rightarrow>
                  (case error of
                     Some m \<Rightarrow>
                       respond 400 (error_details ''Failed to fetch your products'' (JStr m)) cs
                   | None \<Rightarrow>
                       respond 200
                         (JObj [(''products'', js_or data (JArr [])),
                                (''count'', js_or (opt_prop data ''length'') (JNum 0)),
                                (''seller'', seller_of user)]) cs)))"

text \<open>
  PUT /api/my-products/:id. The update holds \<open>updated_at\<close> and then only the
  fields the body defines; \<open>parseFloat\<close> and \<open>parseInt\<close> throw, inside the
  \<open>try\<close>, for a price or a stock quantity that cannot be converted.
\<close>

definition provided :: "string \<Rightarrow> jsval \<Rightarrow> (string \<times> jsval) list" where
  "provided k v = (if \<not> strict_eq v JUndefined then [(k, v)] else [])"

definition product_updates :: "runtime \<Rightarrow> jsval \<Rightarrow> jsval" where
  "product_updates R b =
     JObj ([(''updated_at'', now_iso R)]
           @ provided ''title'' (js_get b ''title'')
           @ provided ''description'' (js_get b ''description'')
           @ (if \<not> strict_eq (js_get b ''price'') JUndefined
              then [(''price'', parseFloat R (js_get b ''price''))] else [])
           @ provided ''image_url'' (js_get b ''image_url'')
           @ provided ''category'' (js_get b ''category'')
           @ (if \<not> strict_eq (js_get b ''stock_quantity'') JUndefined
              then [(''stock_quantity'', parseInt R (js_get b ''stock_quantity''))] else [])
           @ provided ''is_active'' (js_get b ''is_active''))"

definition put_my_product :: "runtime \<Rightarrow> platform \<Rightarrow> request \<Rightarrow> outcome" where
  "put_my_product R W req =
     (case auth_guard W req of
        NoToken \<Rightarrow> respond 401 (error_body ''No token provided'') []
      | GuardThrew token m \<Rightarrow> internal_server_error m [GetUser token]
      | InvalidToken token authError \<Rightarrow>
          respond 401 (error_details ''Invalid or expired token'' (message_of authError))
            [GetUser token]
      | Caller token user \<Rightarrow>
          (let productId = JStr (param_id req);
               check = Select ''products'' ''seller_id'' [(''id'', productId)] None True
           in case W check of
                Threw m \<Rightarrow> internal_server_error m [GetUser token, check]
              | Returned existingProduct checkError \<Rightarrow>
                  if checkError \<noteq> None \<or> \<not> truthy existingProduct then
                    respond 404 (error_details ''Product not found'' (message_of checkError))
                      [GetUser token, check]
                  else if \<not> strict_eq (js_get existingProduct ''seller_id'') (js_get user ''id'') then
                    respond 403 (error_body ''You can only edit your own products'')
                      [GetUser token, check]
                  else if unconvertible (js_get (body req) ''price'') \<or>
                          unconvertible (js_get (body req) ''stock_quantity'') then
                    internal_server_error type_error [GetUser token, check]
                  else
                  (let upd = Update ''products'' (product_updates R (body req))
                               [(''id'', productId), (''seller_id'', js_get user ''id'')];
                       cs = [GetUser token, check, upd]
                   in case W upd of
                        Threw m \<Rightarrow> internal_server_error m cs
                      | Returned data error \<Rightarrow>
                          (case error of
                             Some m \<Rightarrow>
                               respond 400 (error_details ''Failed to update product'' (JStr m)) cs
                           | None \<Rightarrow>
                               if \<not> truthy data \<or> strict_eq (js_get data ''length'') (JNum 0) then
                                 respond 404 (error_body ''Product not found or update failed'') cs
                               else respond 200
                                 (JObj [(''message'', JStr ''Product updated successfully''),
                                        (''product'', index0 data)]) cs))))"

text \<open>
  DELETE /api/my-products/:id. After the ownership check the handler reads the cart
  items that reference the product and refuses while there are any.
\<close>

definition delete_my_product :: "runtime \<Rightarrow> platform \<Rightarrow> request \<Rightarrow> outcome" where
  "delete_my_product R W req =
     (case auth_guard W req of
        NoToken \<Rightarrow> respond 401 (error_body ''No token provided'') []
      | GuardThrew token m \<Rightarrow> internal_server_error m [GetUser token]
      | InvalidToken token authError \<Rightarrow>
          respond 401 (error_details ''Invalid or expired token'' (message_of authError))
            [GetUser token]
      | Caller token user \<Rightarrow>
          (let productId = JStr (param_id req);
               check = Select ''products'' ''seller_id, title'' [(''id'', productId)] None True
           in case W check of
                Threw m \<Rightarrow> internal_server_error m [GetUser token, check]
              | Returned existingProduct checkError \<Rightarrow>
                  if checkError \<noteq> None \<or> \<not> truthy existingProduct then
                    respond 404 (error_details ''Product not found'' (message_of checkError))
                      [GetUser token, check]
                  else if \<not> strict_eq (js_get existingProduct ''seller_id'') (js_get user ''id'') then
                    respond 403 (error_body ''You can only delete your own products'')
                      [GetUser token, check]
                  else
                  (let inCarts = Select ''cart_items'' ''id'' [(''product_id'', productId)] None False
                   in case W inCarts of
                        Threw m \<Rightarrow> internal_server_error m [GetUser token, check, inCarts]
                      | Returned cartItems cartError \<Rightarrow>
                          (case cartError of
                             Some m \<Rightarrow>
                               respond 400
                                 (error_details ''Failed to check cart dependencies'' (JStr m))
                                 [GetUser token, check, inCarts]
                           | None \<Rightarrow>
                               if truthy cartItems \<and> unconvertible (js_get cartItems ''length'') then
                                 internal_server_error type_error [GetUser token, check, inCarts]
                               else
                               if truthy cartItems \<and> js_gt R (js_get cartItems ''length'') (JNum 0) then
                                 respond 400
                                   (JObj [(''error'', JStr ''Cannot delete product that is currently in customer carts''),
                                          (''suggestion'', JStr ''Consider marking it as inactive instead'')])
                                   [GetUser token, check, inCarts]
                               else
                               (let del = Delete ''products''
                                            [(''id'', productId), (''seller_id'', js_get user ''id'')];
                                    cs = [GetUser token, check, inCarts, del]
                                in case W del of
                                     Threw m \<Rightarrow> internal_server_error m cs
                                   | Returned data error \<Rightarrow>
                                       (case error of
                                          Some m \<Rightarrow>
                                            respond 400
                                              (error_details ''Failed to delete product'' (JStr m)) cs
                                        | None \<Rightarrow>
                                            if unconvertible (js_get existingProduct ''title'') then
                                              internal_server_error type_error cs
                                            else
                                            respond 200
                                              (JObj [(''message'', JStr (''Product '' @
                                                        quoted (to_string R (js_get existingProduct ''title'')) @
                                                        '' deleted successfully''))]) cs))))))"

text \<open>
  GET /api/seller-stats. \<open>new Date(v)\<close> has a time value in milliseconds or is an
  invalid date (\<open>None\<close>); a comparison with an invalid date is false.
  \<open>weekAgo\<close> is a Date of the current time moved by
  \<open>setDate(getDate() - 7)\<close>: seven calendar days back in the server's local time.
  The running total of the inventory value starts at 0 and adds, product after product,
  the product of price and stock, with the engine's operations on doubles.
\<close>

fun time_clip :: "number \<Rightarrow> int option" where
  "time_clip (Finite n) =
     (if \<bar>n\<bar> > 8640000000000000 then None
      else Some (if 0 \<le> n then \<lfloor>n\<rfloor> else \<lceil>n\<rceil>))"
| "time_clip v = None"

definition new_Date :: "runtime \<Rightarrow> jsval \<Rightarrow> int option" where
  "new_Date R v =
     (case to_primitive R v of
        None \<Rightarrow> None
      | Some (JStr s) \<Rightarrow> date_parse R s
      | Some p \<Rightarrow> time_clip (prim_to_number R p))"

definition weekAgo :: "runtime \<Rightarrow> int" where
  "weekAgo R = days_before R 7 (now R)"

definition created_after :: "runtime \<Rightarrow> int \<Rightarrow> jsval \<Rightarrow> bool" where
  "created_after R t p =
     (case new_Date R (js_get p ''created_at'') of None \<Rightarrow> False | Some c \<Rightarrow> c > t)"

definition count_of :: "('a \<Rightarrow> bool) \<Rightarrow> 'a list \<Rightarrow> jsval" where
  "count_of P xs = JNum (of_nat (length (filter P xs)))"

definition totalValue :: "runtime \<Rightarrow> jsval list \<Rightarrow> jsval" where
  "totalValue R products =
     foldl (\<lambda>sum p. js_add R sum (js_mul R (js_get p ''price'') (js_get p ''stock_quantity'')))
       (JNum 0) products"

definition statistics :: "runtime \<Rightarrow> jsval list \<Rightarrow> jsval" where
  "statistics R products =
     (let totalProducts = length products;
          activeProducts = length (filter (\<lambda>p. truthy (js_get p ''is_active'')) products)
      in JObj [(''totalProducts'', JNum (of_nat totalProducts)),
               (''activeProducts'', JNum (of_nat activeProducts)),
               (''inactiveProducts'', JNum (of_nat totalProducts - of_nat activeProducts)),
               (''outOfStockProducts'',
                  count_of (\<lambda>p. strict_eq (js_get p ''stock_quantity'') (JNum 0)) products),
               (''recentProducts'', count_of (created_after R (weekAgo R)) products),
               (''totalInventoryValue'', totalValue R products)])"

text \<open>
  The handler throws, and its \<open>catch\<close> answers 500, when the rows are not an
  array, when a row is null or undefined, and when the multiplication or
  \<open>new Date\<close> meets a field that cannot be converted.
\<close>

definition unconvertible_fields :: "jsval \<Rightarrow> bool" where
  "unconvertible_fields p =
     (unconvertible (js_get p ''price'') \<or> unconvertible (js_get p ''stock_quantity'') \<or>
      unconvertible (js_get p ''created_at''))"

definition seller_stats :: "runtime \<Rightarrow> platform \<Rightarrow> request \<Rightarrow> outcome" where
  "seller_stats R W req =
     (case auth_guard W req of
        NoToken \<Rightarrow> respond 401 (error_body ''No token provided'') []
      | GuardThrew token m \<Rightarrow> internal_error m [GetUser token]
      | InvalidToken token authError \<Rightarrow>
          respond 401 (error_details ''Invalid or expired token'' (message_of authError))
            [GetUser token]
      | Caller token user \<Rightarrow>
          (let list = Select ''products'' ''id, is_active, stock_quantity, price, created_at''
                        [(''seller_id'', js_get user ''id'')] None False;
               cs = [GetUser token, list]
           in case W list of
                Threw m \<Rightarrow> internal_error m cs
              | Returned data productsError \<Rightarrow>
                  (case productsError of
                     Some m \<Rightarrow>
                       respond 400 (error_details ''Failed to fetch seller statistics'' (JStr m)) cs
                   | None \<Rightarrow>
                       (case data of
                          JArr products \<Rightarrow>
                            if list_ex nullish products \<or> list_ex unconvertible_fields products
                            then internal_error type_error cs
                            else respond 200
                              (JObj [(''seller'', seller_of user),
                                     (''statistics'', statistics R products),
                                     (''summary'',
                                        JObj [(''message'', JStr (''You have '' @
                                                 string_of_number R (of_nat (length products)) @
                                                 '' products, '' @
                                                 string_of_number R (of_nat (length
                                                   (filter (\<lambda>p. truthy (js_get p ''is_active'')) products))) @
                                                 '' active''))])]) cs
                        | _ \<Rightarrow> internal_error type_error cs))))"

section \<open>Authentication and profile handlers\<close>

text \<open>POST /api/auth/register\<close>

definition register :: "runtime \<Rightarrow> platform \<Rightarrow> request \<Rightarrow> outcome" where
  "register R W req =
     (let email = js_get (body req) ''email'';
          password = js_get (body req) ''password''
      in
      if \<not> truthy email \<or> \<not> truthy password then
        respond 400 (error_body ''Email and password are required'') []
      else if unconvertible (js_get password ''length'') then
        internal_server_error type_error []
      else if js_lt R (js_get password ''length'') (JNum 6) then
        respond 400 (error_body ''Password must be at least 6 characters long'') []
      else
      (let c = SignUp email password in
       case W c of
         Threw m \<Rightarrow> internal_server_error m [c]
       | Returned data error \<Rightarrow>
           (case error of
              Some m \<Rightarrow> respond 400 (error_details ''Registration failed'' (JStr m)) [c]
            | None \<Rightarrow> respond 201 (JObj [(''message'', JStr ''Registration successful'')]) [c])))"

text \<open>POST /api/auth/login\<close>

definition login :: "runtime \<Rightarrow> platform \<Rightarrow> request \<Rightarrow> outcome" where
  "login R W req =
     (let email = js_get (body req) ''email'';
          password = js_get (body req) ''password''
      in
      if \<not> truthy email \<or> \<not> truthy password then
        respond 400 (error_body ''Email and password are required'') []
      else
      (let c = SignInWithPassword email password in
       case W c of
         Threw m \<Rightarrow> internal_server_error m [c]
       | Returned data error \<Rightarrow>
           (case error of
              Some m \<Rightarrow> respond 401 (error_details ''Login failed'' (JStr m)) [c]
            | None \<Rightarrow>
                if nullish data then internal_server_error type_error [c]
                else
                (let user = js_get data ''user'' in
                 respond 200
                   (JObj [(''message'', JStr ''Login successful''),
                          (''user'',
                             JObj [(''id'', opt_prop user ''id''),
                                   (''email'', opt_prop user ''email''),
                                   (''name'', js_or (opt_prop (opt_prop user ''user_metadata'') ''full_name'')
                                                (opt_prop user ''email'')),
                                   (''avatar_url'', opt_prop (opt_prop user ''user_metadata'') ''avatar_url'')]),
                          (''session'', js_get data ''session'')]) [c]))))"

text \<open>POST /api/auth/magic-link\<close>

definition magic_link :: "runtime \<Rightarrow> platform \<Rightarrow> request \<Rightarrow> outcome" where
  "magic_link R W req =
     (let email = js_get (body req) ''email'' in
      if \<not> truthy email then respond 400 (error_body ''Email is required'') []
      else
      (let c = SignInWithOtp email (to_string R (FRONTEND_URL R) @ ''/auth/callback'') in
       case W c of
         Threw m \<Rightarrow> internal_server_error m [c]
       | Returned data error \<Rightarrow>
           (case error of
              Some m \<Rightarrow> respond 400 (error_details ''Failed to send magic link'' (JStr m)) [c]
            | None \<Rightarrow>
                respond 200 (JObj [(''message'', JStr ''Magic link sent successfully''),
                                   (''email'', email)]) [c])))"

text \<open>POST /api/auth/google\<close>

definition google :: "runtime \<Rightarrow> platform \<Rightarrow> request \<Rightarrow> outcome" where
  "google R W req =
     (let c = SignInWithOAuth ''google''
                (to_string R (js_or (FRONTEND_URL R) (JStr ''http://localhost:5173'')) @
                 ''/auth/callback'')
      in case W c of
           Threw m \<Rightarrow> internal_server_error m [c]
         | Returned data error \<Rightarrow>
             (case error of
                Some m \<Rightarrow> respond 400 (error_details ''Failed to initiate Google login'' (JStr m)) [c]
              | None \<Rightarrow>
                  if nullish data then internal_server_error type_error [c]
                  else respond 200 (JObj [(''message'', JStr ''Google OAuth initiated''),
                                          (''redirectUrl'', js_get data ''url'')]) [c]))"

text \<open>GET /api/auth/session\<close>

definition session :: "runtime \<Rightarrow> platform \<Rightarrow> request \<Rightarrow> outcome" where
  "session R W req =
     (case auth_guard W req of
        NoToken \<Rightarrow> respond 401 (error_body ''No token provided'') []
      | GuardThrew token m \<Rightarrow> internal_server_error m [GetUser token]
      | InvalidToken token error \<Rightarrow> respond 401 (error_body ''Invalid token'') [GetUser token]
      | Caller token user \<Rightarrow>
          respond 200
            (JObj [(''session'', JObj [(''access_token'', token), (''user'', user)]),
                   (''user'',
                      JObj [(''id'', js_get user ''id''),
                            (''email'', js_get user ''email''),
                            (''name'', display_name user),
                            (''avatar_url'', opt_prop (js_get user ''user_metadata'') ''avatar_url'')])])
            [GetUser token])"

text \<open>POST /api/auth/logout\<close>

definition logout :: "runtime \<Rightarrow> platform \<Rightarrow> request \<Rightarrow> outcome" where
  "logout R W req =
     (if truthy (bearer_token req) then
        (case W SignOut of
           Threw m \<Rightarrow> internal_server_error m [SignOut]
         | Returned data error \<Rightarrow>
             (case error of
                Some m \<Rightarrow> respond 400 (error_details ''Logout failed'' (JStr m)) [SignOut]
              | None \<Rightarrow> respond 200 (JObj [(''message'', JStr ''Logout successful'')]) [SignOut]))
      else respond 200 (JObj [(''message'', JStr ''Logout successful'')]) [])"

text \<open>
  GET /api/auth/profile. The profile is read inside a \<open>try\<close> of its own whose
  \<open>catch\<close> is empty: whatever goes wrong there, \<open>profileData\<close> stays the empty
  object.
\<close>

definition profileData :: "reply \<Rightarrow> jsval" where
  "profileData r =
     (case r of
        Threw m \<Rightarrow> JObj []
      | Returned profile profileError \<Rightarrow>
          if truthy profile \<and> profileError = None then profile else JObj [])"

definition profile_user :: "jsval \<Rightarrow> jsval \<Rightarrow> jsval" where
  "profile_user user pd =
     JObj [(''id'', js_get user ''id''),
           (''email'', js_get user ''email''),
           (''name'', js_or (js_or (js_get pd ''username'')
                                  (opt_prop (js_get user ''user_metadata'') ''full_name''))
                        (js_get user ''email'')),
           (''username'', js_or (js_get pd ''username'')
                            (opt_prop (js_get user ''user_metadata'') ''full_name'')),
           (''website'', js_or (js_get pd ''website'') (JStr [])),
           (''avatar_url'', js_or (js_get pd ''avatar_url'')
                              (opt_prop (js_get user ''user_metadata'') ''avatar_url'')),
           (''google_id'', js_or (js_get pd ''google_id'')
                             (opt_prop (js_get user ''user_metadata'') ''provider_id'')),
           (''created_at'', js_get user ''created_at''),
           (''last_sign_in_at'', js_get user ''last_sign_in_at''),
           (''email_confirmed_at'', js_get user ''email_confirmed_at'')]"

definition get_profile :: "runtime \<Rightarrow> platform \<Rightarrow> request \<Rightarrow> outcome" where
  "get_profile R W req =
     (case auth_guard W req of
        NoToken \<Rightarrow> respond 401 (error_body ''No token provided'') []
      | GuardThrew token m \<Rightarrow> internal_server_error m [GetUser token]
      | InvalidToken token error \<Rightarrow> respond 401 (error_body ''Invalid token'') [GetUser token]
      | Caller token user \<Rightarrow>
          (let lookup = Select ''profiles'' ''username, website, avatar_url, google_id''
                          [(''id'', js_get user ''id'')] None True
           in respond 200 (JObj [(''user'', profile_user user (profileData (W lookup)))])
                [GetUser token, lookup]))"

text \<open>
  PUT /api/auth/profile, with its helper \<open>isValidUrl\<close>, whose own
  \<open>catch\<close> turns whatever \<open>new URL\<close> throws into \<open>false\<close>.
\<close>

definition isValidUrl :: "runtime \<Rightarrow> jsval \<Rightarrow> bool" where
  "isValidUrl R string =
     (if \<not> truthy string then True
      else if unconvertible string then False
      else (case url_protocol R (to_string R string) of
              None \<Rightarrow> False
            | Some protocol \<Rightarrow> protocol = ''http:'' \<or> protocol = ''https:''))"

definition profile_updates :: "runtime \<Rightarrow> jsval \<Rightarrow> jsval \<Rightarrow> jsval" where
  "profile_updates R user b =
     JObj [(''id'', js_get user ''id''),
           (''username'', js_or (js_or (js_get b ''username'') (js_get b ''name''))
                            (js_get user ''email'')),
           (''website'', js_or (js_get b ''website'') (JStr [])),
           (''avatar_url'', js_or (js_get b ''avatar_url'') (JStr [])),
           (''updated_at'', now_iso R)]"

definition put_profile :: "runtime \<Rightarrow> platform \<Rightarrow> request \<Rightarrow> outcome" where
  "put_profile R W req =
     (case auth_guard W req of
        NoToken \<Rightarrow> respond 401 (error_body ''No token provided'') []
      | GuardThrew token m \<Rightarrow> internal_server_error m [GetUser token]
      | InvalidToken token error \<Rightarrow> respond 401 (error_body ''Invalid token'') [GetUser token]
      | Caller token user \<Rightarrow>
          (let username = js_get (body req) ''username'';
               website = js_get (body req) ''website'';
               avatar_url = js_get (body req) ''avatar_url''
           in
           if truthy username \<and> unconvertible (js_get username ''length'') then
             internal_server_error type_error [GetUser token]
           else
           if truthy username \<and> js_gt R (js_get username ''length'') (JNum 50) then
             respond 400 (error_body ''Username too long (max 50 characters)'') [GetUser token]
           else if truthy website \<and> \<not> isValidUrl R website then
             respond 400 (error_body ''Invalid website URL'') [GetUser token]
           else if truthy avatar_url \<and> \<not> isValidUrl R avatar_url then
             respond 400 (error_body ''Invalid avatar URL'') [GetUser token]
           else
           (let updates = profile_updates R user (body req);
                ups = Upsert ''profiles'' updates ''id''
            in case W ups of
                 Threw m \<Rightarrow> internal_server_error m [GetUser token, ups]
               | Returned data error \<Rightarrow>
                   (case error of
                      Some m \<Rightarrow>
                        respond 400 (error_details ''Failed to update profile'' (JStr m))
                          [GetUser token, ups]
                    | None \<Rightarrow>
                        (let mirror = UpdateUser
                                        (JObj [(''full_name'', js_or username (js_get (body req) ''name'')),
                                               (''avatar_url'', avatar_url)])
                         in respond 200
                              (JObj [(''message'', JStr ''Profile updated successfully''),
                                     (''user'',
                                        JObj [(''id'', js_get user ''id''),
                                              (''email'', js_get user ''email''),
                                              (''name'', js_get updates ''username''),
                                              (''username'', js_get updates ''username''),
                                              (''website'', js_get updates ''website''),
                                              (''avatar_url'', js_get updates ''avatar_url''),
                                              (''updated_at'', js_get updates ''updated_at'')])])
                              [GetUser token, ups, mirror])))))"

text \<open>GET /api/health\<close>

definition health :: "runtime \<Rightarrow> platform \<Rightarrow> request \<Rightarrow> outcome" where
  "health R W req =
     respond 200
       (JObj [(''status'', JStr ''OK''),
              (''message'', JStr ''Backend server is running''),
              (''timestamp'', now_iso R),
              (''endpoints'',
                 JObj [(''products'',
                          JObj [(''getAll'', JStr ''/api/posts''),
                                (''create'', JStr ''POST /api/posts''),
                                (''myProducts'', JStr ''/api/my-products''),
                                (''updateProduct'', JStr ''PUT /api/my-products/:id''),
                                (''deleteProduct'', JStr ''DELETE /api/my-products/:id''),
                                (''sellerStats'', JStr ''/api/seller-stats'')]),
                       (''cart'',
                          JObj [(''getCart'', JStr ''/api/cart''),
                                (''addToCart'', JStr ''POST /api/cart''),
                                (''updateItem'', JStr ''PUT /api/cart/:id''),
                                (''removeItem'', JStr ''DELETE /api/cart/:id''),
                                (''clearCart'', JStr ''DELETE /api/cart'')]),
                       (''auth'',
                          JObj [(''register'', JStr ''/api/auth/register''),
                                (''login'', JStr ''/api/auth/login''),
                                (''logout'', JStr ''/api/auth/logout''),
                                (''magicLink'', JStr ''/api/auth/magic-link''),
                                (''google'', JStr ''/api/auth/google''),
                                (''session'', JStr ''/api/auth/session''),
                                (''profile'', JStr ''/api/auth/profile'')])])])
       []"

text \<open>The routing table: every handler of the server with its method and path.\<close>

definition handlers :: "(string \<times> (runtime \<Rightarrow> platform \<Rightarrow> request \<Rightarrow> outcome)) list" where
  "handlers =
     [(''GET /api/posts'', get_posts),
      (''POST /api/posts'', post_posts),
      (''POST /api/auth/register'', register),
      (''POST /api/auth/login'', login),
      (''POST /api/auth/magic-link'', magic_link),
      (''POST /api/auth/google'', google),
      (''GET /api/auth/session'', session),
      (''GET /api/cart'', get_cart),
      (''POST /api/cart'', post_cart),
      (''PUT /api/cart/:id'', put_cart),
      (''DELETE /api/cart/:id'', delete_cart_item),
      (''DELETE /api/cart'', delete_cart),
      (''POST /api/auth/logout'', logout),
      (''GET /api/auth/profile'', get_profile),
      (''PUT /api/auth/profile'', put_profile),
      (''GET /api/my-products'', get_my_products),
      (''PUT /api/my-products/:id'', put_my_product),
      (''DELETE /api/my-products/:id'', delete_my_product),
      (''GET /api/seller-stats'', seller_stats),
      (''GET /api/health'', health)]"

section \<open>Which upstream errors are answered with 400\<close>

text \<open>
  The handlers test the \<open>error\<close> of a reply right after the call. For the calls
  marked here the test answers 400 with the upstream message as \<open>details\<close>: every
  read of a list, every write, and the identity provider's sign-up, one-time link, OAuth
  and sign-out. The others are answered differently: the token lookup and the password
  sign-in with 401, a single-row lookup with 404 or not at all, and the reply of the
  metadata update is never read.
\<close>

fun reports_400 :: "call \<Rightarrow> bool" where
  "reports_400 (GetUser t) = False"
| "reports_400 (SignInWithPassword e p) = False"
| "reports_400 (UpdateUser d) = False"
| "reports_400 (Select t cols fs ord single) = (\<not> single)"
| "reports_400 c = True"

text \<open>
  An outcome answers its upstream errors: whichever marked call of the outcome was
  answered with an error, the response is 400 and carries the message.
\<close>

definition answers_400 :: "platform \<Rightarrow> outcome \<Rightarrow> bool" where
  "answers_400 W out =
     (\<forall>c \<in> set (calls out). \<forall>d m. reports_400 c \<and> W c = Returned d (Some m) \<longrightarrow>
        status_of out = Some 400 \<and> details_of out = JStr m)"

section \<open>The inventory value as the specification words it\<close>

text \<open>
  The specification gives the total inventory value as the sum over all products of price
  times stock quantity. In the arithmetic of doubles: the value of a row is the engine's
  product of its two fields as numbers; the sum of no numbers is 0, and the sum of a list
  that ends with \<open>v\<close> is the engine's sum of what stands before \<open>v\<close>, and
  \<open>v\<close>. \<open>sum_backwards\<close> takes the list last element first.
\<close>

definition price_times_stock :: "runtime \<Rightarrow> jsval \<Rightarrow> number" where
  "price_times_stock R p =
     number_mul R (to_number R (js_get p ''price'')) (to_number R (js_get p ''stock_quantity''))"

fun sum_backwards :: "runtime \<Rightarrow> number list \<Rightarrow> number" where
  "sum_backwards R [] = Finite 0"
| "sum_backwards R (v # vs) = number_add R (sum_backwards R vs) v"

definition sum_in_order :: "runtime \<Rightarrow> number list \<Rightarrow> number" where
  "sum_in_order R vs = sum_backwards R (rev vs)"

definition spec_totalInventoryValue :: "runtime \<Rightarrow> jsval list \<Rightarrow> jsval" where
  "spec_totalInventoryValue R products =
     of_number (sum_in_order R (map (price_times_stock R) products))"

section \<open>Example data\<close>

text \<open>
  A runtime for the examples, tabulated at the values they use: the decimal numerals of a
  few numbers, one URL, a few timestamps. Its arithmetic is exact: that is the
  arithmetic of doubles wherever a double holds the exact result, as it does for the sums
  and products of the examples (of small integers and halves). The clock stands at
  2026-01-10T00:00:00Z and the server keeps UTC, where a calendar day is 24 hours.
\<close>

definition example_numerals :: "(rat \<times> string) list" where
  "example_numerals =
     [(0, ''0''), (1, ''1''), (2, ''2''), (3, ''3''), (4, ''4''), (5, ''5''),
      (12, ''12''), (20, ''20''), (999 / 100, ''9.99'')]"

definition example_number :: "string \<Rightarrow> number" where
  "example_number s =
     (case map_of (map (\<lambda>(n, s). (s, n)) example_numerals) s of
        Some n \<Rightarrow> Finite n
      | None \<Rightarrow> NotANumber)"

fun exact_add :: "number \<Rightarrow> number \<Rightarrow> number" where
  "exact_add (Finite x) (Finite y) = Finite (x + y)"
| "exact_add (Finite x) (Infinite t) = Infinite t"
| "exact_add (Infinite s) (Finite y) = Infinite s"
| "exact_add (Infinite s) (Infinite t) = (if s = t then Infinite s else NotANumber)"
| "exact_add x y = NotANumber"

fun exact_mul :: "number \<Rightarrow> number \<Rightarrow> number" where
  "exact_mul (Finite x) (Finite y) = Finite (x * y)"
| "exact_mul (Finite x) (Infinite t) = (if x = 0 then NotANumber else Infinite (t = (0 < x)))"
| "exact_mul (Infinite s) (Finite y) = (if y = 0 then NotANumber else Infinite (s = (0 < y)))"
| "exact_mul (Infinite s) (Infinite t) = Infinite (s = t)"
| "exact_mul x y = NotANumber"

fun whole :: "number \<Rightarrow> number" where
  "whole (Finite n) = Finite (of_int \<lfloor>n\<rfloor>)"
| "whole v = NotANumber"

definition example_dates :: "(string \<times> int) list" where
  "example_dates =
     [(''2026-01-10T00:00:00.000Z'', 1768003200000),
      (''2026-01-09T12:00:00.000Z'', 1767960000000),
      (''2026-01-03T00:00:00.000Z'', 1767398400000),
      (''2025-12-01T00:00:00.000Z'', 1764547200000)]"

definition example_runtime :: runtime where
  "example_runtime =
     \<lparr>number_of_string = example_number,
      string_of_number = (\<lambda>n. case map_of example_numerals n of Some s \<Rightarrow> s | None \<Rightarrow> []),
      number_add = exact_add,
      number_mul = exact_mul,
      parseFloat_string = example_number,
      parseInt_string = (\<lambda>s. whole (example_number s)),
      url_protocol = map_of [(''https://alice.example'', ''https:'')],
      date_parse = map_of example_dates,
      iso_string = (\<lambda>t. case map_of (map (\<lambda>(s, t). (t, s)) example_dates) t of
                            Some s \<Rightarrow> s | None \<Rightarrow> []),
      now = 1768003200000,
      days_before = (\<lambda>n t. t - int n * 86400000),
      FRONTEND_URL = JStr ''https://gobuy-frontend.vercel.app''\<rparr>"

text \<open>A user of the identity provider.\<close>

definition alice :: jsval where
  "alice =
     JObj [(''id'', JStr ''u-alice''),
           (''email'', JStr ''alice@example.com''),
           (''user_metadata'',
              JObj [(''full_name'', JStr ''Alice''),
                    (''avatar_url'', JStr ''https://alice.example/a.png''),
                    (''provider_id'', JStr ''g-1001''),
                    (''website'', JStr ''https://alice.example'')]),
           (''created_at'', JStr ''2025-12-01T00:00:00.000Z''),
           (''last_sign_in_at'', JStr ''2026-01-09T12:00:00.000Z''),
           (''email_confirmed_at'', JStr ''2025-12-01T00:00:00.000Z'')]"

text \<open>
  A platform that answers by the kind of the call: every token is the given user's, every
  other identity call gets one reply, a select gets the reply given for its table, every
  write gets one reply.
\<close>

definition scripted :: "jsval \<Rightarrow> reply \<Rightarrow> (string \<Rightarrow> reply) \<Rightarrow> reply \<Rightarrow> platform" where
  "scripted user identity tables written c =
     (case c of
        GetUser token \<Rightarrow> Returned (JObj [(''user'', user)]) None
      | Select t cols fs ord single \<Rightarrow> tables t
      | Insert cl t row \<Rightarrow> written
      | Update t row fs \<Rightarrow> written
      | Upsert t row k \<Rightarrow> written
      | Delete t fs \<Rightarrow> written
      | _ \<Rightarrow> identity)"

definition no_rows :: reply where
  "no_rows = Returned JNull (Some ''JSON object requested, multiple (or no) rows returned'')"

definition as_alice :: "jsval \<Rightarrow> request" where
  "as_alice b = \<lparr>authorization = Some ''Bearer t0'', body = b, param_id = ''7''\<rparr>"

text \<open>Rows and replies of the examples.\<close>

definition product_with :: "rat \<Rightarrow> bool \<Rightarrow> jsval" where
  "product_with stock active =
     JObj [(''id'', JStr ''p1''), (''title'', JStr ''Widget''),
           (''stock_quantity'', JNum stock), (''is_active'', JBool active)]"

definition owned_by :: "string \<Rightarrow> jsval" where
  "owned_by seller = JObj [(''seller_id'', JStr seller), (''title'', JStr ''Widget'')]"

definition cart_row :: "rat \<Rightarrow> jsval" where
  "cart_row n =
     JObj [(''id'', JStr ''c1''), (''user_id'', JStr ''u-alice''), (''product_id'', JStr ''p1''),
           (''quantity'', JNum n), (''products'', JObj [(''title'', JStr ''Widget'')])]"

definition written_row :: reply where
  "written_row = Returned (JArr [cart_row 3]) None"

text \<open>
  A platform for alice: the products table answers with the given row (or list), every
  other table with the given reply, every write with the given reply.
\<close>

definition shop :: "jsval \<Rightarrow> reply \<Rightarrow> reply \<Rightarrow> platform" where
  "shop product cart written =
     scripted alice no_rows (\<lambda>t. if t = ''products'' then Returned product None else cart) written"

definition catalogue :: "jsval list" where
  "catalogue =
     [JObj [(''id'', JStr ''p1''), (''is_active'', JBool True), (''stock_quantity'', JNum 2),
            (''price'', JNum 3), (''created_at'', JStr ''2026-01-09T12:00:00.000Z'')],
      JObj [(''id'', JStr ''p2''), (''is_active'', JBool False), (''stock_quantity'', JNum 0),
            (''price'', JNum 5), (''created_at'', JStr ''2025-12-01T00:00:00.000Z'')],
      JObj [(''id'', JStr ''p3''), (''is_active'', JBool True), (''stock_quantity'', JNum 1),
            (''price'', JNum (19 / 2)), (''created_at'', JStr ''2026-01-03T00:00:00.000Z'')]]"

text \<open>
  A record store that fails every read, an identity provider that rejects a sign-in, and
  one that rejects every token.
\<close>

definition failing_store :: platform where
  "failing_store = scripted alice no_rows (\<lambda>t. Returned JNull (Some ''connection refused'')) no_rows"

definition rejecting_provider :: platform where
  "rejecting_provider =
     scripted alice
       (Returned (JObj [(''user'', JNull), (''session'', JNull)]) (Some ''Invalid login credentials''))
       (\<lambda>t. no_rows) no_rows"

definition expired_session :: platform where
  "expired_session c = Returned (JObj [(''user'', JNull)]) (Some ''invalid JWT'')"

definition credentials :: request where
  "credentials =
     \<lparr>authorization = None,
      body = JObj [(''email'', JStr ''alice@example.com''), (''password'', JStr ''longenough'')],
      param_id = []\<rparr>"

section \<open>Proof tools\<close>

text \<open>Unfolding the observations of an outcome, and facts about the operators.\<close>

lemmas outcome_simps = respond_def internal_server_error_def internal_error_def writes_def
  store_after_def status_of_def payload_of_def details_of_def


lemma strict_eq_num: "strict_eq v (JNum n) \<longleftrightarrow> v = JNum n"
  by (cases v) auto

lemma requested_quantity_eq:
  "requested_quantity b =
     (if js_get b ''quantity'' = JUndefined then JNum 1 else js_get b ''quantity'')"
  by (cases "js_get b ''quantity''") (simp_all add: requested_quantity_def)

text \<open>An operator that gives true, or a string or a number, has converted its operands.\<close>

lemma to_primitive_None: "to_primitive R v = None \<longleftrightarrow> unconvertible v"
  by (cases v) (simp_all add: to_primitive_def)

lemma js_lt_converts: "js_lt R a b \<Longrightarrow> \<not> unconvertible a \<and> \<not> unconvertible b"
  using to_primitive_None[of R a] to_primitive_None[of R b]
  by (auto simp: js_lt_def split: option.splits)

lemma to_primitive_simps:
  "to_primitive R (JNum n) = Some (JNum n)"
  "to_primitive R (JStr s) = Some (JStr s)"
  "to_primitive R (JInfinity i) = Some (JInfinity i)"
  "to_primitive R JNaN = Some JNaN"
  "to_primitive R JUndefined = Some JUndefined"
  "to_primitive R JNull = Some JNull"
  "to_primitive R (JBool b) = Some (JBool b)"
  by (simp_all add: to_primitive_def)

text \<open>The examples: the guard resolves alice, and the scripted platforms answer as given.\<close>

lemma guard_alice: "auth_guard (scripted alice i t w) (as_alice b) = Caller (JStr ''t0'') alice"
  by (simp add: auth_guard_def bearer_token_def as_alice_def scripted_def alice_def field_of_def)

lemma guard_shop: "auth_guard (shop p c w) (as_alice b) = Caller (JStr ''t0'') alice"
  unfolding shop_def by (rule guard_alice)

lemma alice_id: "js_get alice ''id'' = JStr ''u-alice''"
  by (simp add: alice_def field_of_def)

lemma example_requests:
  "body (as_alice b) = b" "param_id (as_alice b) = ''7''"
  by (simp_all add: as_alice_def)

lemma shop_answers:
  "shop p c w (Select ''products'' cols fs ord single) = Returned p None"
  "shop p c w (Select ''cart_items'' cols fs ord single) = c"
  "shop p c w (Insert cl t row) = w"
  "shop p c w (Update t row fs) = w"
  "shop p c w (Delete t fs) = w"
  by (simp_all add: shop_def scripted_def)

lemma shop_select:
  "shop p c w (Select t cols fs ord single) = (if t = ''products'' then Returned p None else c)"
  by (simp add: shop_def scripted_def)

lemmas example_simps = example_requests shop_answers alice_id field_of_def product_with_def
  cart_row_def no_rows_def owned_by_def requested_quantity_def js_lt_def js_gt_def js_add_def
  to_primitive_simps error_body_def error_details_def Let_def

section \<open>Adding to the cart\<close>

text \<open>
  C1. A cart-add request by an authenticated caller whose body gives the quantity as a
  string \<open>q\<close> (a form-encoded body, or a JSON string), for a product that was
  loaded, is active and has the number \<open>stock\<close> in stock, not below \<open>q\<close>
  read as a number; the caller has a row for the product, which holds the number
  \<open>n\<close>. The handler does not add the two quantities: \<open>newQuantity\<close> is the
  string made of the numeral of \<open>n\<close> followed by \<open>q\<close>. When that string, read
  as a number, exceeds the stock, the request is refused with 400 and nothing is written;
  otherwise the only write updates the row to that string.
\<close>

theorem cart_add_concatenates_string_quantity:
  assumes "auth_guard W req = Caller token user"
    and "truthy (js_get (body req) ''product_id'')"
    and "js_get (body req) ''quantity'' = JStr q"
    and "W (Select ''products'' ''id, title, stock_quantity, is_active''
              [(''id'', js_get (body req) ''product_id'')] None True) = Returned product None"
    and "truthy product"
    and "truthy (js_get product ''is_active'')"
    and "js_get product ''stock_quantity'' = JNum stock"
    and "\<not> number_less (Finite stock) (number_of_string R q)"
    and "W (Select ''cart_items'' ''*''
              [(''user_id'', js_get user ''id''), (''product_id'', js_get (body req) ''product_id'')]
              None True) = Returned existingItem None"
    and "truthy existingItem"
    and "js_get existingItem ''quantity'' = JNum n"
  shows "js_add R (js_get existingItem ''quantity'') (requested_quantity (body req)) =
           JStr (string_of_number R n @ q)
         \<and> (if number_less (Finite stock) (number_of_string R (string_of_number R n @ q)) then
               response (post_cart R W req) =
                 Response 400
                   (JObj [(''error'', JStr ''Cannot add more items than available stock''),
                          (''currentInCart'', JNum n),
                          (''available'', JNum stock),
                          (''requested'', JStr q)])
               \<and> writes (post_cart R W req) = []
             else
               writes (post_cart R W req) =
                 [Update ''cart_items''
                    (JObj [(''quantity'', JStr (string_of_number R n @ q)),
                           (''added_at'', JStr (iso_string R (now R)))])
                    [(''id'', js_get existingItem ''id'')]])"
proof -
  let ?cs = "[GetUser token,
              Select ''products'' ''id, title, stock_quantity, is_active''
                [(''id'', js_get (body req) ''product_id'')] None True,
              Select ''cart_items'' ''*''
                [(''user_id'', js_get user ''id''), (''product_id'', js_get (body req) ''product_id'')]
                None True]"
  have q: "requested_quantity (body req) = JStr q"
    using assms(3) by (simp add: requested_quantity_def)
  have lt: "\<not> js_lt R (JNum stock) (JStr q)"
    using assms(8) by (simp add: js_lt_def to_primitive_simps)
  have run: "post_cart R W req = update_existing_cart_item R W ?cs product existingItem (JStr q)"
    using assms lt by (simp add: post_cart_def Let_def q)
  have sum: "js_add R (JNum n) (JStr q) = JStr (string_of_number R n @ q)"
    by (simp add: js_add_def to_primitive_simps)
  have gt: "js_gt R (JStr (string_of_number R n @ q)) (JNum stock) =
      number_less (Finite stock) (number_of_string R (string_of_number R n @ q))"
    by (simp add: js_gt_def js_lt_def to_primitive_simps)
  show ?thesis
    using assms(7,11)
    by (simp add: run q sum gt update_existing_cart_item_def Let_def writes_def respond_def
          internal_server_error_def now_iso_def split: reply.split option.split)
qed

text \<open>
  The theorem at two requests of alice who holds one widget in her cart and asks for
  \<open>"2"\<close> more. With 20 in stock the row is updated to the string \<open>"12"\<close>, not
  to 3; with 5 in stock the request is refused as if it asked for 12, although 3 fit.
\<close>

theorem cart_add_concatenates_string_quantity_witness:
  "auth_guard (shop (product_with 20 True) (Returned (cart_row 1) None) (Returned (JArr [cart_row 12]) None))
      (as_alice (JObj [(''product_id'', JStr ''p1''), (''quantity'', JStr ''2'')])) = Caller (JStr ''t0'') alice
   \<and> writes (post_cart example_runtime (shop (product_with 20 True) (Returned (cart_row 1) None) (Returned (JArr [cart_row 12]) None))
               (as_alice (JObj [(''product_id'', JStr ''p1''), (''quantity'', JStr ''2'')]))) =
       [Update ''cart_items''
          (JObj [(''quantity'', JStr ''12''), (''added_at'', JStr ''2026-01-10T00:00:00.000Z'')])
          [(''id'', JStr ''c1'')]]
   \<and> response (post_cart example_runtime (shop (product_with 5 True) (Returned (cart_row 1) None) (Returned (JArr [cart_row 12]) None))
               (as_alice (JObj [(''product_id'', JStr ''p1''), (''quantity'', JStr ''2'')]))) =
       Response 400
         (JObj [(''error'', JStr ''Cannot add more items than available stock''),
                (''currentInCart'', JNum 1), (''available'', JNum 5), (''requested'', JStr ''2'')])
   \<and> writes (post_cart example_runtime (shop (product_with 5 True) (Returned (cart_row 1) None) (Returned (JArr [cart_row 12]) None))
               (as_alice (JObj [(''product_id'', JStr ''p1''), (''quantity'', JStr ''2'')]))) = []"
proof -
  let ?req = "as_alice (JObj [(''product_id'', JStr ''p1''), (''quantity'', JStr ''2'')])"
  note ev = example_requests shop_answers alice_id field_of_def product_with_def cart_row_def
    example_runtime_def example_dates_def example_number_def example_numerals_def
  have a: "writes (post_cart example_runtime (shop (product_with 20 True) (Returned (cart_row 1) None) (Returned (JArr [cart_row 12]) None)) ?req) =
       [Update ''cart_items''
          (JObj [(''quantity'', JStr ''12''), (''added_at'', JStr ''2026-01-10T00:00:00.000Z'')])
          [(''id'', JStr ''c1'')]]"
    using cart_add_concatenates_string_quantity[where R = example_runtime
        and W = "shop (product_with 20 True) (Returned (cart_row 1) None) (Returned (JArr [cart_row 12]) None)"
        and req = ?req and token = "JStr ''t0''" and user = alice and product = "product_with 20 True"
        and existingItem = "cart_row 1" and q = "''2''" and stock = 20 and n = 1]
    by (simp add: guard_shop ev)
  have b: "response (post_cart example_runtime (shop (product_with 5 True) (Returned (cart_row 1) None) (Returned (JArr [cart_row 12]) None)) ?req) =
       Response 400
         (JObj [(''error'', JStr ''Cannot add more items than available stock''),
                (''currentInCart'', JNum 1), (''available'', JNum 5), (''requested'', JStr ''2'')])
     \<and> writes (post_cart example_runtime (shop (product_with 5 True) (Returned (cart_row 1) None) (Returned (JArr [cart_row 12]) None)) ?req) = []"
    using cart_add_concatenates_string_quantity[where R = example_runtime
        and W = "shop (product_with 5 True) (Returned (cart_row 1) None) (Returned (JArr [cart_row 12]) None)"
        and req = ?req and token = "JStr ''t0''" and user = alice and product = "product_with 5 True"
        and existingItem = "cart_row 1" and q = "''2''" and stock = 5 and n = 1]
    by (simp add: guard_shop ev)
  show ?thesis using a b guard_shop by simp
qed

text \<open>
  C4. The rejections of a cart-add request by an authenticated caller: without a
  \<open>product_id\<close> the response is 400; when the product lookup returns an error or
  no row it is 404; when the product's \<open>is_active\<close> is false it is 400; when
  \<open>stock_quantity < quantity\<close> (the quantity is 1 when the body names none) it is
  400 with the error "Insufficient stock" and the fields \<open>available\<close> and
  \<open>requested\<close>. In each case no write is issued and the store stays as it was.
\<close>

theorem cart_add_rejections:
  assumes "auth_guard W req = Caller token user"
  shows "(\<not> truthy (js_get (body req) ''product_id'') \<longrightarrow>
            response (post_cart R W req) = Response 400 (error_body ''Product ID is required'')
            \<and> writes (post_cart R W req) = []
            \<and> store_after effect (post_cart R W req) s = s)
       \<and> (truthy (js_get (body req) ''product_id'') \<and>
          W (Select ''products'' ''id, title, stock_quantity, is_active''
               [(''id'', js_get (body req) ''product_id'')] None True) = Returned product productError
          \<longrightarrow>
            (productError \<noteq> None \<or> \<not> truthy product \<longrightarrow>
               response (post_cart R W req) =
                 Response 404 (error_details ''Product not found'' (message_of productError))
               \<and> writes (post_cart R W req) = []
               \<and> store_after effect (post_cart R W req) s = s)
          \<and> (productError = None \<and> truthy product \<and> \<not> truthy (js_get product ''is_active'') \<longrightarrow>
               response (post_cart R W req) = Response 400 (error_body ''Product is not active'')
               \<and> writes (post_cart R W req) = []
               \<and> store_after effect (post_cart R W req) s = s)
          \<and> (productError = None \<and> truthy product \<and> truthy (js_get product ''is_active'')
               \<and> js_lt R (js_get product ''stock_quantity'') (requested_quantity (body req)) \<longrightarrow>
               response (post_cart R W req) =
                 Response 400 (JObj [(''error'', JStr ''Insufficient stock''),
                                     (''available'', js_get product ''stock_quantity''),
                                     (''requested'', requested_quantity (body req))])
               \<and> writes (post_cart R W req) = []
               \<and> store_after effect (post_cart R W req) s = s))"
  using assms by (auto simp: post_cart_def outcome_simps Let_def dest: js_lt_converts)

text \<open>
  The theorem at four requests of alice: 3 of a product with stock 2, an inactive product,
  a product the store does not have, and a body without \<open>product_id\<close>.
\<close>

theorem cart_add_rejections_witness:
  "auth_guard (shop (product_with 2 True) no_rows written_row)
      (as_alice (JObj [(''product_id'', JStr ''p1''), (''quantity'', JNum 3)])) = Caller (JStr ''t0'') alice
   \<and> js_lt example_runtime (JNum 2) (JNum 3)
   \<and> response (post_cart example_runtime (shop (product_with 2 True) no_rows written_row)
               (as_alice (JObj [(''product_id'', JStr ''p1''), (''quantity'', JNum 3)]))) =
       Response 400 (JObj [(''error'', JStr ''Insufficient stock''),
                           (''available'', JNum 2), (''requested'', JNum 3)])
   \<and> writes (post_cart example_runtime (shop (product_with 2 True) no_rows written_row)
               (as_alice (JObj [(''product_id'', JStr ''p1''), (''quantity'', JNum 3)]))) = []
   \<and> response (post_cart example_runtime (shop (product_with 5 False) no_rows written_row)
               (as_alice (JObj [(''product_id'', JStr ''p1'')]))) =
       Response 400 (JObj [(''error'', JStr ''Product is not active'')])
   \<and> response (post_cart example_runtime (shop JNull no_rows written_row)
               (as_alice (JObj [(''product_id'', JStr ''p1'')]))) =
       Response 404 (JObj [(''error'', JStr ''Product not found''), (''details'', JUndefined)])
   \<and> response (post_cart example_runtime (shop (product_with 5 True) no_rows written_row)
               (as_alice (JObj [(''quantity'', JNum 3)]))) =
       Response 400 (JObj [(''error'', JStr ''Product ID is required'')])"
proof -
  let ?three = "as_alice (JObj [(''product_id'', JStr ''p1''), (''quantity'', JNum 3)])"
  let ?one = "as_alice (JObj [(''product_id'', JStr ''p1'')])"
  let ?none = "as_alice (JObj [(''quantity'', JNum 3)])"
  have a: "response (post_cart example_runtime (shop (product_with 2 True) no_rows written_row) ?three) =
       Response 400 (JObj [(''error'', JStr ''Insufficient stock''),
                           (''available'', JNum 2), (''requested'', JNum 3)])
     \<and> writes (post_cart example_runtime (shop (product_with 2 True) no_rows written_row) ?three) = []"
    using cart_add_rejections[where R = example_runtime and W = "shop (product_with 2 True) no_rows written_row"
        and req = "as_alice (JObj [(''product_id'', JStr ''p1''), (''quantity'', JNum 3)])" and token = "JStr ''t0''" and user = alice
        and product = "product_with 2 True" and productError = None
        and effect = "\<lambda>c n. Suc n" and s = 0]
    by (simp add: guard_shop example_simps)
  have b: "response (post_cart example_runtime (shop (product_with 5 False) no_rows written_row) ?one) =
       Response 400 (JObj [(''error'', JStr ''Product is not active'')])"
    using cart_add_rejections[where R = example_runtime and W = "shop (product_with 5 False) no_rows written_row"
        and req = "as_alice (JObj [(''product_id'', JStr ''p1'')])" and token = "JStr ''t0''" and user = alice
        and product = "product_with 5 False" and productError = None
        and effect = "\<lambda>c n. Suc n" and s = 0]
    by (simp add: guard_shop example_simps)
  have c: "response (post_cart example_runtime (shop JNull no_rows written_row) ?one) =
       Response 404 (JObj [(''error'', JStr ''Product not found''), (''details'', JUndefined)])"
    using cart_add_rejections[where R = example_runtime and W = "shop JNull no_rows written_row"
        and req = "as_alice (JObj [(''product_id'', JStr ''p1'')])" and token = "JStr ''t0''" and user = alice
        and product = JNull and productError = None
        and effect = "\<lambda>c n. Suc n" and s = 0]
    by (simp add: guard_shop example_simps)
  have d: "response (post_cart example_runtime (shop (product_with 5 True) no_rows written_row) ?none) =
       Response 400 (JObj [(''error'', JStr ''Product ID is required'')])"
    using cart_add_rejections[where R = example_runtime and W = "shop (product_with 5 True) no_rows written_row"
        and req = "as_alice (JObj [(''quantity'', JNum 3)])" and token = "JStr ''t0''" and user = alice
        and product = JNull and productError = None
        and effect = "\<lambda>c n. Suc n" and s = 0]
    by (simp add: guard_shop example_simps)
  have e: "js_lt example_runtime (JNum 2) (JNum 3)"
    by (simp add: js_lt_def to_primitive_simps)
  show ?thesis using a b c d e guard_shop by simp
qed

section \<open>Removing one cart item\<close>

text \<open>
  C10. In the remove-one handler the caller's ownership is checked by the read alone: the
  read filters by the item id and by \<open>user_id\<close>, and when it returns an error or no
  row the response is 404 and nothing else is called. When it returns a row, the delete
  that follows is filtered by the item id only: the caller's id is not part of the call,
  so the store is asked to delete the row of that id whoever owns it by then.
\<close>

theorem remove_one_deletes_by_id_alone:
  assumes "auth_guard W req = Caller token user"
    and "W (Select ''cart_items'' ''*, products(title)''
              [(''id'', JStr (param_id req)), (''user_id'', js_get user ''id'')] None True) =
         Returned cartItem cartError"
  shows "(if cartError \<noteq> None \<or> \<not> truthy cartItem then
            response (delete_cart_item R W req) =
              Response 404 (error_details ''Cart item not found'' (message_of cartError))
            \<and> calls (delete_cart_item R W req) =
                [GetUser token,
                 Select ''cart_items'' ''*, products(title)''
                   [(''id'', JStr (param_id req)), (''user_id'', js_get user ''id'')] None True]
          else
            calls (delete_cart_item R W req) =
              [GetUser token,
               Select ''cart_items'' ''*, products(title)''
                 [(''id'', JStr (param_id req)), (''user_id'', js_get user ''id'')] None True,
               Delete ''cart_items'' [(''id'', JStr (param_id req))]])"
proof (cases "W (Delete ''cart_items'' [(''id'', JStr (param_id req))])")
  case (Threw m)
  with assms show ?thesis
    by (simp add: delete_cart_item_def Let_def respond_def internal_server_error_def)
next
  case (Returned d e)
  with assms show ?thesis
    by (cases e) (simp_all add: delete_cart_item_def Let_def respond_def internal_server_error_def)
qed

text \<open>The theorem at alice's request for item 7, once found and once not.\<close>

theorem remove_one_deletes_by_id_alone_witness:
  "auth_guard (shop JNull (Returned (cart_row 1) None) (Returned JNull None)) (as_alice (JObj [])) =
     Caller (JStr ''t0'') alice
   \<and> calls (delete_cart_item example_runtime
              (shop JNull (Returned (cart_row 1) None) (Returned JNull None)) (as_alice (JObj []))) =
       [GetUser (JStr ''t0''),
        Select ''cart_items'' ''*, products(title)''
          [(''id'', JStr ''7''), (''user_id'', JStr ''u-alice'')] None True,
        Delete ''cart_items'' [(''id'', JStr ''7'')]]
   \<and> response (delete_cart_item example_runtime
              (shop JNull no_rows (Returned JNull None)) (as_alice (JObj []))) =
       Response 404
         (JObj [(''error'', JStr ''Cart item not found''),
                (''details'', JStr ''JSON object requested, multiple (or no) rows returned'')])
   \<and> calls (delete_cart_item example_runtime
              (shop JNull no_rows (Returned JNull None)) (as_alice (JObj []))) =
       [GetUser (JStr ''t0''),
        Select ''cart_items'' ''*, products(title)''
          [(''id'', JStr ''7''), (''user_id'', JStr ''u-alice'')] None True]"
proof -
  have a: "calls (delete_cart_item example_runtime
              (shop JNull (Returned (cart_row 1) None) (Returned JNull None)) (as_alice (JObj []))) =
       [GetUser (JStr ''t0''),
        Select ''cart_items'' ''*, products(title)''
          [(''id'', JStr ''7''), (''user_id'', JStr ''u-alice'')] None True,
        Delete ''cart_items'' [(''id'', JStr ''7'')]]"
    using remove_one_deletes_by_id_alone[where R = example_runtime and W = "shop JNull (Returned (cart_row 1) None) (Returned JNull None)"
        and req = "as_alice (JObj [])" and token = "JStr ''t0''" and user = alice
        and cartItem = "cart_row 1" and cartError = None]
    by (simp add: guard_shop example_simps)
  have b: "response (delete_cart_item example_runtime
              (shop JNull no_rows (Returned JNull None)) (as_alice (JObj []))) =
       Response 404
         (JObj [(''error'', JStr ''Cart item not found''),
                (''details'', JStr ''JSON object requested, multiple (or no) rows returned'')])
   \<and> calls (delete_cart_item example_runtime
              (shop JNull no_rows (Returned JNull None)) (as_alice (JObj []))) =
       [GetUser (JStr ''t0''),
        Select ''cart_items'' ''*, products(title)''
          [(''id'', JStr ''7''), (''user_id'', JStr ''u-alice'')] None True]"
    using remove_one_deletes_by_id_alone[where R = example_runtime and W = "shop JNull no_rows (Returned JNull None)"
        and req = "as_alice (JObj [])" and token = "JStr ''t0''" and user = alice
        and cartItem = JNull
        and cartError = "Some ''JSON object requested, multiple (or no) rows returned''"]
    by (simp add: guard_shop example_simps)
  show ?thesis using a b guard_shop by simp
qed

section \<open>Creating a product\<close>







section \<open>Updating and deleting a product\<close>

text \<open>
  C3. An update or a delete of /api/my-products/:id by an authenticated caller, where the
  product lookup returns a product whose \<open>seller_id\<close> is not (\<open>!==\<close>) the
  caller's id: the response is 403, no write is issued, and the store stays as it was.
\<close>

theorem foreign_product_is_forbidden:
  assumes "auth_guard W req = Caller token user"
    and "truthy existingProduct"
    and "\<not> strict_eq (js_get existingProduct ''seller_id'') (js_get user ''id'')"
  shows "(W (Select ''products'' ''seller_id'' [(''id'', JStr (param_id req))] None True) =
            Returned existingProduct None \<longrightarrow>
          response (put_my_product R W req) =
            Response 403 (error_body ''You can only edit your own products'')
          \<and> writes (put_my_product R W req) = []
          \<and> store_after effect (put_my_product R W req) s = s)
       \<and> (W (Select ''products'' ''seller_id, title'' [(''id'', JStr (param_id req))] None True) =
            Returned existingProduct None \<longrightarrow>
          response (delete_my_product R W req) =
            Response 403 (error_body ''You can only delete your own products'')
          \<and> writes (delete_my_product R W req) = []
          \<and> store_after effect (delete_my_product R W req) s = s)"
  using assms
  by (simp add: put_my_product_def delete_my_product_def Let_def outcome_simps)

text \<open>The theorem at alice's requests on a product of bob.\<close>

theorem foreign_product_is_forbidden_witness:
  "auth_guard (shop (owned_by ''u-bob'') no_rows (Returned JNull None)) (as_alice (JObj [(''title'', JStr ''Mine'')])) =
     Caller (JStr ''t0'') alice
   \<and> \<not> strict_eq (js_get (owned_by ''u-bob'') ''seller_id'') (js_get alice ''id'')
   \<and> response (put_my_product example_runtime (shop (owned_by ''u-bob'') no_rows (Returned JNull None))
                 (as_alice (JObj [(''title'', JStr ''Mine'')]))) =
       Response 403 (JObj [(''error'', JStr ''You can only edit your own products'')])
   \<and> writes (put_my_product example_runtime (shop (owned_by ''u-bob'') no_rows (Returned JNull None))
                 (as_alice (JObj [(''title'', JStr ''Mine'')]))) = []
   \<and> response (delete_my_product example_runtime (shop (owned_by ''u-bob'') no_rows (Returned JNull None))
                 (as_alice (JObj [(''title'', JStr ''Mine'')]))) =
       Response 403 (JObj [(''error'', JStr ''You can only delete your own products'')])
   \<and> writes (delete_my_product example_runtime (shop (owned_by ''u-bob'') no_rows (Returned JNull None))
                 (as_alice (JObj [(''title'', JStr ''Mine'')]))) = []"
  using foreign_product_is_forbidden[where R = example_runtime and W = "shop (owned_by ''u-bob'') no_rows (Returned JNull None)"
        and req = "as_alice (JObj [(''title'', JStr ''Mine'')])" and token = "JStr ''t0''" and user = alice
        and existingProduct = "owned_by ''u-bob''" and effect = "\<lambda>c n. Suc n" and s = 0]
    guard_shop[of "owned_by ''u-bob''" no_rows "Returned JNull None" "JObj [(''title'', JStr ''Mine'')]"]
  by (simp add: guard_shop example_simps)

text \<open>
  C5. A delete of /api/my-products/:id by the owning seller, where the read of the cart
  items that reference the product returns at least one: the response is 400 with the
  suggestion to mark the product inactive, no write is issued, and the store (the
  product and every cart item) stays as it was.
\<close>

theorem product_in_carts_is_not_deleted:
  assumes "auth_guard W req = Caller token user"
    and "W (Select ''products'' ''seller_id, title'' [(''id'', JStr (param_id req))] None True) =
           Returned existingProduct None"
    and "truthy existingProduct"
    and "strict_eq (js_get existingProduct ''seller_id'') (js_get user ''id'')"
    and "W (Select ''cart_items'' ''id'' [(''product_id'', JStr (param_id req))] None False) =
           Returned (JArr (item # items)) None"
  shows "response (delete_my_product R W req) =
           Response 400
             (JObj [(''error'', JStr ''Cannot delete product that is currently in customer carts''),
                    (''suggestion'', JStr ''Consider marking it as inactive instead'')])
         \<and> writes (delete_my_product R W req) = []
         \<and> store_after effect (delete_my_product R W req) s = s"
proof -
  have "js_gt R (JNum (of_nat (length (item # items)))) (JNum 0)"
    by (simp add: js_gt_def js_lt_def to_primitive_simps add_pos_nonneg)
  with assms show ?thesis
    by (simp add: delete_my_product_def Let_def outcome_simps)
qed

text \<open>The theorem at alice's delete of her product while one cart holds it.\<close>

theorem product_in_carts_is_not_deleted_witness:
  "auth_guard (shop (owned_by ''u-alice'') (Returned (JArr [JObj [(''id'', JStr ''c1'')]]) None)
        (Returned JNull None)) (as_alice (JObj [])) = Caller (JStr ''t0'') alice
   \<and> strict_eq (js_get (owned_by ''u-alice'') ''seller_id'') (js_get alice ''id'')
   \<and> response (delete_my_product example_runtime
         (shop (owned_by ''u-alice'') (Returned (JArr [JObj [(''id'', JStr ''c1'')]]) None)
            (Returned JNull None)) (as_alice (JObj []))) =
       Response 400
         (JObj [(''error'', JStr ''Cannot delete product that is currently in customer carts''),
                (''suggestion'', JStr ''Consider marking it as inactive instead'')])
   \<and> writes (delete_my_product example_runtime
         (shop (owned_by ''u-alice'') (Returned (JArr [JObj [(''id'', JStr ''c1'')]]) None)
            (Returned JNull None)) (as_alice (JObj []))) = []
   \<and> store_after (\<lambda>c n. Suc n) (delete_my_product example_runtime
         (shop (owned_by ''u-alice'') (Returned (JArr [JObj [(''id'', JStr ''c1'')]]) None)
            (Returned JNull None)) (as_alice (JObj []))) (0::nat) = 0"
  using product_in_carts_is_not_deleted[where R = example_runtime and W = "shop (owned_by ''u-alice'') (Returned (JArr [JObj [(''id'', JStr ''c1'')]]) None) (Returned JNull None)"
        and req = "as_alice (JObj [])" and token = "JStr ''t0''" and user = alice and existingProduct = "owned_by ''u-alice''"
        and item = "JObj [(''id'', JStr ''c1'')]" and items = "[]"
        and effect = "\<lambda>c n. Suc n" and s = 0]
    guard_shop[of "owned_by ''u-alice''" "Returned (JArr [JObj [(''id'', JStr ''c1'')]]) None"
        "Returned JNull None" "JObj []"]
  by (simp add: guard_shop example_simps)

section \<open>Seller statistics\<close>

text \<open>
  The running total of the handler is the sum as the specification words it: by induction
  on the products, for any total reached so far.
\<close>

lemma js_mul_value:
  "js_mul R (js_get p ''price'') (js_get p ''stock_quantity'') = of_number (price_times_stock R p)"
  by (simp add: js_mul_def price_times_stock_def)

lemma js_add_numbers: "js_add R (of_number a) (of_number b) = of_number (number_add R a b)"
  by (cases a; cases b) (simp_all add: js_add_def to_primitive_simps)

lemma fold_is_sum_backwards:
  "foldl (\<lambda>sum p. js_add R sum (of_number (price_times_stock R p)))
     (of_number (sum_backwards R acc)) ps =
   of_number (sum_backwards R (rev (map (price_times_stock R) ps) @ acc))"
proof (induction ps arbitrary: acc)
  case Nil
  then show ?case by simp
next
  case (Cons p ps)
  have "js_add R (of_number (sum_backwards R acc)) (of_number (price_times_stock R p)) =
        of_number (sum_backwards R (price_times_stock R p # acc))"
    by (simp add: js_add_numbers)
  then show ?case
    using Cons.IH[of "price_times_stock R p # acc"] by simp
qed

lemma totalValue_is_sum: "totalValue R products = spec_totalInventoryValue R products"
  using fold_is_sum_backwards[of R "[]" products]
  by (simp add: totalValue_def spec_totalInventoryValue_def sum_in_order_def js_mul_value rev_map)

text \<open>
  C7. A seller-statistics request whose read returns the caller's products, a list of
  rows whose price, stock quantity and creation time can be converted: the response is
  200 and its statistics are: \<open>totalProducts\<close> the number of products,
  \<open>activeProducts\<close> the number with a true \<open>is_active\<close>,
  \<open>inactiveProducts\<close> the first minus the second, \<open>outOfStockProducts\<close>
  the number with \<open>stock_quantity\<close> equal to 0, \<open>totalInventoryValue\<close> the sum
  over all products of price times stock quantity (products and sums of doubles, added in
  the order of the list), and \<open>recentProducts\<close> the number of products created
  strictly later than now set back seven calendar days.
\<close>

theorem seller_statistics:
  assumes "auth_guard W req = Caller token user"
    and "W (Select ''products'' ''id, is_active, stock_quantity, price, created_at''
              [(''seller_id'', js_get user ''id'')] None False) = Returned (JArr products) None"
    and "\<not> list_ex nullish products"
    and "\<not> list_ex unconvertible_fields products"
  shows "status_of (seller_stats R W req) = Some 200
       \<and> js_get (payload_of (seller_stats R W req)) ''statistics'' = statistics R products
       \<and> js_get (statistics R products) ''totalProducts'' = JNum (of_nat (length products))
       \<and> js_get (statistics R products) ''activeProducts'' =
           JNum (of_nat (length (filter (\<lambda>p. truthy (js_get p ''is_active'')) products)))
       \<and> js_get (statistics R products) ''inactiveProducts'' =
           JNum (of_nat (length products)
                 - of_nat (length (filter (\<lambda>p. truthy (js_get p ''is_active'')) products)))
       \<and> js_get (statistics R products) ''outOfStockProducts'' =
           JNum (of_nat (length (filter (\<lambda>p. js_get p ''stock_quantity'' = JNum 0) products)))
       \<and> js_get (statistics R products) ''totalInventoryValue'' =
           of_number (sum_in_order R (map (price_times_stock R) products))
       \<and> js_get (statistics R products) ''recentProducts'' =
           JNum (of_nat (length (filter
             (\<lambda>p. \<exists>created. new_Date R (js_get p ''created_at'') = Some created
                    \<and> created > days_before R 7 (now R)) products)))"
proof -
  have after: "created_after R (weekAgo R) =
      (\<lambda>p. \<exists>created. new_Date R (js_get p ''created_at'') = Some created
                    \<and> created > days_before R 7 (now R))"
    by (auto simp: created_after_def weekAgo_def fun_eq_iff split: option.splits)
  have out: "(\<lambda>p. strict_eq (js_get p ''stock_quantity'') (JNum 0)) =
             (\<lambda>p. js_get p ''stock_quantity'' = JNum 0)"
    by (simp add: strict_eq_num)
  have resp: "status_of (seller_stats R W req) = Some 200
       \<and> js_get (payload_of (seller_stats R W req)) ''statistics'' = statistics R products"
    using assms
    by (simp add: seller_stats_def Let_def respond_def status_of_def payload_of_def field_of_def)
  have total: "totalValue R products = of_number (sum_in_order R (map (price_times_stock R) products))"
    by (simp add: totalValue_is_sum spec_totalInventoryValue_def)
  have fields: "js_get (statistics R products) ''totalProducts'' = JNum (of_nat (length products))
       \<and> js_get (statistics R products) ''activeProducts'' =
           JNum (of_nat (length (filter (\<lambda>p. truthy (js_get p ''is_active'')) products)))
       \<and> js_get (statistics R products) ''inactiveProducts'' =
           JNum (of_nat (length products)
                 - of_nat (length (filter (\<lambda>p. truthy (js_get p ''is_active'')) products)))
       \<and> js_get (statistics R products) ''outOfStockProducts'' =
           JNum (of_nat (length (filter (\<lambda>p. js_get p ''stock_quantity'' = JNum 0) products)))
       \<and> js_get (statistics R products) ''totalInventoryValue'' =
           of_number (sum_in_order R (map (price_times_stock R) products))
       \<and> js_get (statistics R products) ''recentProducts'' =
           JNum (of_nat (length (filter
             (\<lambda>p. \<exists>created. new_Date R (js_get p ''created_at'') = Some created
                    \<and> created > days_before R 7 (now R)) products)))"
    by (simp add: statistics_def Let_def field_of_def count_of_def total after out)
  show ?thesis using resp fields by simp
qed

text \<open>
  The theorem at a catalogue of three products worth 6, 0 and 9.5, the third created
  exactly seven days before now and therefore not recent.
\<close>

theorem seller_statistics_witness:
  "auth_guard (shop (JArr catalogue) no_rows no_rows) (as_alice (JObj [])) =
     Caller (JStr ''t0'') alice
   \<and> \<not> list_ex nullish catalogue
   \<and> \<not> list_ex unconvertible_fields catalogue
   \<and> status_of (seller_stats example_runtime (shop (JArr catalogue) no_rows no_rows)
        (as_alice (JObj []))) = Some 200
   \<and> js_get (payload_of (seller_stats example_runtime (shop (JArr catalogue) no_rows no_rows)
        (as_alice (JObj [])))) ''statistics'' =
       JObj [(''totalProducts'', JNum 3), (''activeProducts'', JNum 2),
             (''inactiveProducts'', JNum 1), (''outOfStockProducts'', JNum 1),
             (''recentProducts'', JNum 1), (''totalInventoryValue'', JNum (31 / 2))]
   \<and> sum_in_order example_runtime (map (price_times_stock example_runtime) catalogue) =
       Finite (31 / 2)"
proof -
  have s: "statistics example_runtime catalogue =
       JObj [(''totalProducts'', JNum 3), (''activeProducts'', JNum 2),
             (''inactiveProducts'', JNum 1), (''outOfStockProducts'', JNum 1),
             (''recentProducts'', JNum 1), (''totalInventoryValue'', JNum (31 / 2))]"
    by (simp add: statistics_def catalogue_def count_of_def totalValue_def created_after_def
          weekAgo_def new_Date_def js_add_def js_mul_def to_number_def to_primitive_simps
          field_of_def example_runtime_def example_dates_def)
  have n: "\<not> list_ex nullish catalogue" "\<not> list_ex unconvertible_fields catalogue"
    by (simp_all add: catalogue_def unconvertible_fields_def field_of_def)
  have v: "sum_in_order example_runtime (map (price_times_stock example_runtime) catalogue) =
       Finite (31 / 2)"
    by (simp add: sum_in_order_def price_times_stock_def catalogue_def to_number_def
          to_primitive_simps field_of_def example_runtime_def)
  show ?thesis
    using seller_statistics[where R = example_runtime
        and W = "shop (JArr catalogue) no_rows no_rows"
        and req = "as_alice (JObj [])" and token = "JStr ''t0''" and user = alice
        and products = catalogue] n v
    by (simp add: guard_shop shop_answers alice_id s)
qed

section \<open>Upstream errors\<close>

text \<open>Every handler answers its upstream errors with 400, for the calls marked above.\<close>

lemmas answer_simps = answers_400_def respond_def internal_server_error_def internal_error_def
  status_of_def payload_of_def details_of_def error_details_def error_body_def field_of_def

lemma answers_update_existing:
  "\<forall>c\<in>set cs. \<not> reports_400 c \<or> (\<exists>d. W c = Returned d None) \<Longrightarrow>
   answers_400 W (update_existing_cart_item R W cs product existingItem quantity)"
  by (auto simp: update_existing_cart_item_def Let_def answer_simps split: reply.split option.split)

lemma answers_create_new:
  "\<forall>c\<in>set cs. \<not> reports_400 c \<or> (\<exists>d. W c = Returned d None) \<Longrightarrow>
   answers_400 W (create_new_cart_item R W cs user product product_id quantity)"
  by (auto simp: create_new_cart_item_def Let_def answer_simps split: reply.split option.split)

lemma answers_post_cart: "answers_400 W (post_cart R W req)"
  unfolding post_cart_def Let_def
  apply (simp add: answers_update_existing answers_create_new split: guard.split reply.split option.split)
  apply (simp_all add: answer_simps)
  done

lemma answers_get_posts: "answers_400 W (get_posts R W req)"
  by (simp add: get_posts_def Let_def answer_simps split: guard.split reply.split option.split)

lemma answers_post_posts: "answers_400 W (post_posts R W req)"
  by (simp add: post_posts_def Let_def answer_simps split: guard.split reply.split option.split)

lemma answers_register: "answers_400 W (register R W req)"
  by (simp add: register_def Let_def answer_simps split: guard.split reply.split option.split)

lemma answers_login: "answers_400 W (login R W req)"
  by (simp add: login_def Let_def answer_simps split: guard.split reply.split option.split)

lemma answers_magic_link: "answers_400 W (magic_link R W req)"
  by (simp add: magic_link_def Let_def answer_simps split: guard.split reply.split option.split)

lemma answers_google: "answers_400 W (google R W req)"
  by (simp add: google_def Let_def answer_simps split: guard.split reply.split option.split)

lemma answers_session: "answers_400 W (session R W req)"
  by (simp add: session_def Let_def answer_simps split: guard.split reply.split option.split)

lemma answers_get_cart: "answers_400 W (get_cart R W req)"
  by (simp add: get_cart_def Let_def answer_simps split: guard.split reply.split option.split)

lemma answers_put_cart: "answers_400 W (put_cart R W req)"
  by (simp add: put_cart_def Let_def answer_simps split: guard.split reply.split option.split)

lemma answers_delete_cart_item: "answers_400 W (delete_cart_item R W req)"
  by (simp add: delete_cart_item_def Let_def answer_simps split: guard.split reply.split option.split)

lemma answers_delete_cart: "answers_400 W (delete_cart R W req)"
  by (simp add: delete_cart_def Let_def answer_simps split: guard.split reply.split option.split)

lemma answers_logout: "answers_400 W (logout R W req)"
  by (simp add: logout_def Let_def answer_simps split: guard.split reply.split option.split)

lemma answers_get_profile: "answers_400 W (get_profile R W req)"
  by (simp add: get_profile_def Let_def answer_simps split: guard.split reply.split option.split)

lemma answers_put_profile: "answers_400 W (put_profile R W req)"
  by (simp add: put_profile_def Let_def answer_simps split: guard.split reply.split option.split)

lemma answers_get_my_products: "answers_400 W (get_my_products R W req)"
  by (simp add: get_my_products_def Let_def answer_simps split: guard.split reply.split option.split)

lemma answers_put_my_product: "answers_400 W (put_my_product R W req)"
  by (simp add: put_my_product_def Let_def answer_simps split: guard.split reply.split option.split)

lemma answers_delete_my_product: "answers_400 W (delete_my_product R W req)"
  by (simp add: delete_my_product_def Let_def answer_simps split: guard.split reply.split option.split)

lemma answers_seller_stats: "answers_400 W (seller_stats R W req)"
  by (simp add: seller_stats_def Let_def answer_simps split: guard.split reply.split option.split jsval.split)

lemma answers_health: "answers_400 W (health R W req)"
  by (simp add: health_def answer_simps)

text \<open>
  C8, as amended. For every handler of the routing table: whenever a read of a list, a
  write, or a sign-up, one-time-link, OAuth or sign-out call returns an error, the
  response is 400 and its \<open>details\<close> is the upstream message. The login handler
  answers a rejected password sign-in with 401, error "Login failed", and the message as
  \<open>details\<close>.
\<close>

theorem upstream_errors_answered:
  "((name, h) \<in> set handlers \<and> c \<in> set (calls (h R W req)) \<and> reports_400 c
      \<and> W c = Returned d (Some m) \<longrightarrow>
      status_of (h R W req) = Some 400 \<and> details_of (h R W req) = JStr m)
   \<and> (truthy (js_get (body req) ''email'') \<and> truthy (js_get (body req) ''password'')
      \<and> W (SignInWithPassword (js_get (body req) ''email'') (js_get (body req) ''password'')) =
          Returned d (Some m) \<longrightarrow>
      response (login R W req) = Response 401 (error_details ''Login failed'' (JStr m)))"
proof -
  have "answers_400 W (h R W req)" if "(name, h) \<in> set handlers"
    using that
    by (auto simp: handlers_def answers_get_posts answers_post_posts answers_register
        answers_login answers_magic_link answers_google answers_session answers_get_cart
        answers_post_cart answers_put_cart answers_delete_cart_item answers_delete_cart
        answers_logout answers_get_profile answers_put_profile answers_get_my_products
        answers_put_my_product answers_delete_my_product answers_seller_stats answers_health)
  then have listed: "(name, h) \<in> set handlers \<and> c \<in> set (calls (h R W req)) \<and> reports_400 c
      \<and> W c = Returned d (Some m) \<longrightarrow>
      status_of (h R W req) = Some 400 \<and> details_of (h R W req) = JStr m"
    unfolding answers_400_def by blast
  have signin: "truthy (js_get (body req) ''email'') \<and> truthy (js_get (body req) ''password'')
      \<and> W (SignInWithPassword (js_get (body req) ''email'') (js_get (body req) ''password'')) =
          Returned d (Some m) \<longrightarrow>
      response (login R W req) = Response 401 (error_details ''Login failed'' (JStr m))"
    by (simp add: login_def Let_def respond_def)
  show ?thesis using listed signin by (rule conjI)
qed

text \<open>
  The theorem at a store that fails the product list, and at a sign-in the platform
  rejects.
\<close>

theorem upstream_errors_answered_witness:
  "(''GET /api/posts'', get_posts) \<in> set handlers
   \<and> Select ''products'' ''*'' [] (Some (''created_at'', False)) False
       \<in> set (calls (get_posts example_runtime failing_store credentials))
   \<and> reports_400 (Select ''products'' ''*'' [] (Some (''created_at'', False)) False)
   \<and> failing_store (Select ''products'' ''*'' [] (Some (''created_at'', False)) False) =
       Returned JNull (Some ''connection refused'')
   \<and> status_of (get_posts example_runtime failing_store credentials) = Some 400
   \<and> details_of (get_posts example_runtime failing_store credentials) = JStr ''connection refused''
   \<and> rejecting_provider (SignInWithPassword (JStr ''alice@example.com'') (JStr ''longenough'')) =
       Returned (JObj [(''user'', JNull), (''session'', JNull)]) (Some ''Invalid login credentials'')
   \<and> response (login example_runtime rejecting_provider credentials) =
       Response 401
         (JObj [(''error'', JStr ''Login failed''), (''details'', JStr ''Invalid login credentials'')])"
proof -
  have h: "(''GET /api/posts'', get_posts) \<in> set handlers"
    by (simp add: handlers_def)
  have c: "Select ''products'' ''*'' [] (Some (''created_at'', False)) False
       \<in> set (calls (get_posts example_runtime failing_store credentials))"
    by (simp add: get_posts_def Let_def failing_store_def scripted_def respond_def)
  have w: "failing_store (Select ''products'' ''*'' [] (Some (''created_at'', False)) False) =
       Returned JNull (Some ''connection refused'')"
    by (simp add: failing_store_def scripted_def)
  have s: "rejecting_provider (SignInWithPassword (JStr ''alice@example.com'') (JStr ''longenough'')) =
       Returned (JObj [(''user'', JNull), (''session'', JNull)]) (Some ''Invalid login credentials'')"
    by (simp add: rejecting_provider_def scripted_def)
  have b: "js_get (body credentials) ''email'' = JStr ''alice@example.com''
       \<and> js_get (body credentials) ''password'' = JStr ''longenough''"
    by (simp add: credentials_def field_of_def)
  have first: "status_of (get_posts example_runtime failing_store credentials) = Some 400
       \<and> details_of (get_posts example_runtime failing_store credentials) = JStr ''connection refused''"
    using upstream_errors_answered[where name = "''GET /api/posts''" and h = get_posts
        and c = "Select ''products'' ''*'' [] (Some (''created_at'', False)) False"
        and R = example_runtime and W = failing_store and req = credentials and d = JNull
        and m = "''connection refused''"] h c w
    by simp
  have second: "response (login example_runtime rejecting_provider credentials) =
       Response 401
         (JObj [(''error'', JStr ''Login failed''), (''details'', JStr ''Invalid login credentials'')])"
    using upstream_errors_answered[where R = example_runtime and W = rejecting_provider
        and req = credentials and d = "JObj [(''user'', JNull), (''session'', JNull)]"
        and m = "''Invalid login credentials''"] s b
    by (simp add: error_details_def)
  show ?thesis using h c w s first second by simp
qed

text \<open>
  C8 as first stated has every upstream error answered with 400, the login handler's in
  particular. When the identity provider rejects the credentials, the login handler
  answers 401. So do the protected handlers when the provider rejects the token; a
  single-row lookup that returns an error is answered 404; and the profile read answers
  200 when its lookup returns an error.
\<close>

theorem upstream_error_not_400_counterexample:
  "rejecting_provider (SignInWithPassword (JStr ''alice@example.com'') (JStr ''longenough'')) =
     Returned (JObj [(''user'', JNull), (''session'', JNull)]) (Some ''Invalid login credentials'')
   \<and> calls (login example_runtime rejecting_provider credentials) =
       [SignInWithPassword (JStr ''alice@example.com'') (JStr ''longenough'')]
   \<and> response (login example_runtime rejecting_provider credentials) =
       Response 401 (JObj [(''error'', JStr ''Login failed''),
                           (''details'', JStr ''Invalid login credentials'')])
   \<and> status_of (login example_runtime rejecting_provider credentials) \<noteq> Some 400
   \<and> response (get_cart example_runtime expired_session (as_alice (JObj []))) =
       Response 401 (JObj [(''error'', JStr ''Invalid or expired token''),
                           (''details'', JStr ''invalid JWT'')])
   \<and> response (delete_cart_item example_runtime (shop JNull no_rows no_rows) (as_alice (JObj []))) =
       Response 404
         (JObj [(''error'', JStr ''Cart item not found''),
                (''details'', JStr ''JSON object requested, multiple (or no) rows returned'')])
   \<and> status_of (get_profile example_runtime (shop JNull no_rows no_rows) (as_alice (JObj []))) =
       Some 200"
proof -
  have a: "response (login example_runtime rejecting_provider credentials) =
       Response 401 (JObj [(''error'', JStr ''Login failed''),
                           (''details'', JStr ''Invalid login credentials'')])
     \<and> calls (login example_runtime rejecting_provider credentials) =
       [SignInWithPassword (JStr ''alice@example.com'') (JStr ''longenough'')]
     \<and> rejecting_provider (SignInWithPassword (JStr ''alice@example.com'') (JStr ''longenough'')) =
       Returned (JObj [(''user'', JNull), (''session'', JNull)]) (Some ''Invalid login credentials'')"
    by (simp add: login_def Let_def rejecting_provider_def scripted_def credentials_def respond_def
          error_details_def field_of_def)
  have b: "response (get_cart example_runtime expired_session (as_alice (JObj []))) =
       Response 401 (JObj [(''error'', JStr ''Invalid or expired token''),
                           (''details'', JStr ''invalid JWT'')])"
    by (simp add: get_cart_def auth_guard_def bearer_token_def as_alice_def expired_session_def
          respond_def error_details_def field_of_def)
  have c: "response (delete_cart_item example_runtime (shop JNull no_rows no_rows) (as_alice (JObj []))) =
       Response 404
         (JObj [(''error'', JStr ''Cart item not found''),
                (''details'', JStr ''JSON object requested, multiple (or no) rows returned'')])"
    by (simp add: delete_cart_item_def Let_def guard_shop shop_select no_rows_def respond_def
          error_details_def)
  have d: "status_of (get_profile example_runtime (shop JNull no_rows no_rows) (as_alice (JObj []))) =
       Some 200"
    by (simp add: get_profile_def Let_def guard_shop respond_def status_of_def)
  show ?thesis using a b c d by (simp add: status_of_def)
qed

section \<open>Reading the profile\<close>

text \<open>
  C9, as amended. An authenticated profile read for which the profile lookup throws,
  returns an error or returns no row: the response is 200; \<open>username\<close>,
  \<open>avatar_url\<close> and \<open>google_id\<close> are the identity metadata's
  \<open>full_name\<close>, \<open>avatar_url\<close> and \<open>provider_id\<close>, \<open>name\<close> is
  the \<open>full_name\<close> or else the email, \<open>website\<close> is the empty string, and
  the identity's \<open>created_at\<close>, \<open>last_sign_in_at\<close> and
  \<open>email_confirmed_at\<close> are included.
\<close>

theorem profile_read_without_profile:
  assumes "auth_guard W req = Caller token user"
    and "W (Select ''profiles'' ''username, website, avatar_url, google_id''
              [(''id'', js_get user ''id'')] None True) = Threw m
         \<or> (W (Select ''profiles'' ''username, website, avatar_url, google_id''
                  [(''id'', js_get user ''id'')] None True) = Returned profile profileError
            \<and> (\<not> truthy profile \<or> profileError \<noteq> None))"
  shows "response (get_profile R W req) =
           Response 200
             (JObj [(''user'',
                JObj [(''id'', js_get user ''id''),
                      (''email'', js_get user ''email''),
                      (''name'', js_or (opt_prop (js_get user ''user_metadata'') ''full_name'')
                                   (js_get user ''email'')),
                      (''username'', opt_prop (js_get user ''user_metadata'') ''full_name''),
                      (''website'', JStr []),
                      (''avatar_url'', opt_prop (js_get user ''user_metadata'') ''avatar_url''),
                      (''google_id'', opt_prop (js_get user ''user_metadata'') ''provider_id''),
                      (''created_at'', js_get user ''created_at''),
                      (''last_sign_in_at'', js_get user ''last_sign_in_at''),
                      (''email_confirmed_at'', js_get user ''email_confirmed_at'')])])"
proof -
  have pd: "profileData (W (Select ''profiles'' ''username, website, avatar_url, google_id''
              [(''id'', js_get user ''id'')] None True)) = JObj []"
    using assms(2) by (auto simp: profileData_def)
  have fallback: "js_or JUndefined x = x" for x
    by (simp add: js_or_def)
  show ?thesis
    using assms(1)
    by (simp add: get_profile_def Let_def respond_def pd profile_user_def field_of_def fallback)
qed

text \<open>The theorem at alice, who has no profile row.\<close>

theorem profile_read_without_profile_witness:
  "auth_guard (shop JNull no_rows no_rows) (as_alice (JObj [])) = Caller (JStr ''t0'') alice
   \<and> shop JNull no_rows no_rows
        (Select ''profiles'' ''username, website, avatar_url, google_id''
           [(''id'', js_get alice ''id'')] None True) =
       Returned JNull (Some ''JSON object requested, multiple (or no) rows returned'')
   \<and> response (get_profile example_runtime (shop JNull no_rows no_rows) (as_alice (JObj []))) =
       Response 200
         (JObj [(''user'',
            JObj [(''id'', JStr ''u-alice''),
                  (''email'', JStr ''alice@example.com''),
                  (''name'', JStr ''Alice''),
                  (''username'', JStr ''Alice''),
                  (''website'', JStr []),
                  (''avatar_url'', JStr ''https://alice.example/a.png''),
                  (''google_id'', JStr ''g-1001''),
                  (''created_at'', JStr ''2025-12-01T00:00:00.000Z''),
                  (''last_sign_in_at'', JStr ''2026-01-09T12:00:00.000Z''),
                  (''email_confirmed_at'', JStr ''2025-12-01T00:00:00.000Z'')])])"
proof -
  have w: "shop JNull no_rows no_rows
        (Select ''profiles'' ''username, website, avatar_url, google_id''
           [(''id'', js_get alice ''id'')] None True) =
       Returned JNull (Some ''JSON object requested, multiple (or no) rows returned'')"
    by (simp add: shop_def scripted_def no_rows_def)
  show ?thesis
    using profile_read_without_profile[where R = example_runtime and W = "shop JNull no_rows no_rows"
        and req = "as_alice (JObj [])" and token = "JStr ''t0''" and user = alice
        and profile = JNull
        and profileError = "Some ''JSON object requested, multiple (or no) rows returned''"
        and m = "[]"] w
    by (simp add: guard_shop alice_def field_of_def opt_prop_def js_or_def)
qed

text \<open>
  C9 as first stated fills every profile field, the website among them, from the identity
  metadata. Alice's metadata names a website; the website of the response is empty.
\<close>

theorem profile_website_counterexample:
  "opt_prop (js_get alice ''user_metadata'') ''website'' = JStr ''https://alice.example''
   \<and> js_get (js_get (payload_of
         (get_profile example_runtime (shop JNull no_rows no_rows) (as_alice (JObj [])))) ''user'')
       ''website'' = JStr []
   \<and> JStr [] \<noteq> JStr ''https://alice.example''"
proof -
  have "payload_of (get_profile example_runtime (shop JNull no_rows no_rows) (as_alice (JObj []))) =
          JObj [(''user'', profile_user alice (JObj []))]"
    by (simp add: get_profile_def Let_def guard_shop respond_def payload_of_def profileData_def
          shop_select no_rows_def)
  then show ?thesis
    by (simp add: profile_user_def alice_def field_of_def opt_prop_def js_or_def)
qed

end
